theory Spec2Isabelle
  imports Complex_Main "HOL-Library.Sublist" "HOL-Library.Multiset" "HOL-Library.Word"
begin

section \<open>JavaScript strings\<close>

text \<open>
  Strings are lists of 8-bit characters: header values reach Node decoded as Latin-1 and
  a URL path is percent-encoded ASCII. \<open>toLowerCase\<close> is JavaScript's mapping on that
  range: \<open>A\<close>..\<open>Z\<close> and the accented capitals \<open>0xC0\<close>..\<open>0xDE\<close> (the multiplication sign
  \<open>0xD7\<close> apart) move up by 32, every other character stays.
\<close>

definition lowerChar :: "char \<Rightarrow> char" where
  "lowerChar c =
     (let n = (of_char c :: nat)
      in if (65 \<le> n \<and> n \<le> 90) \<or> (192 \<le> n \<and> n \<le> 222 \<and> n \<noteq> 215)
         then char_of (n + 32) else c)"

definition toLowerCase :: "string \<Rightarrow> string" where
  "toLowerCase s = map lowerChar s"

text \<open>\<open>s.startsWith(p)\<close>, \<open>s.includes(p)\<close> (named \<open>includesStr\<close> here) and \<open>s.endsWith(p)\<close>.\<close>

fun startsWith :: "string \<Rightarrow> string \<Rightarrow> bool" where
  "startsWith s [] = True"
| "startsWith [] (p # ps) = False"
| "startsWith (c # cs) (p # ps) = (c = p \<and> startsWith cs ps)"

fun includesStr :: "string \<Rightarrow> string \<Rightarrow> bool" where
  "includesStr [] p = (p = [])"
| "includesStr (c # cs) p = (startsWith (c # cs) p \<or> includesStr cs p)"

definition endsWith :: "string \<Rightarrow> string \<Rightarrow> bool" where
  "endsWith s p = startsWith (rev s) (rev p)"

text \<open>
  \<open>s.split(sep)\<close> for a one-character separator: the pieces between the separators,
  empty pieces included; the empty string splits into one empty piece.
\<close>

fun split :: "char \<Rightarrow> string \<Rightarrow> string list" where
  "split sep [] = [[]]"
| "split sep (c # cs) =
     (if c = sep then [] # split sep cs
      else (case split sep cs of [] \<Rightarrow> [[c]] | p # ps \<Rightarrow> (c # p) # ps))"

section \<open>Storage layout: the extension of a content type\<close>

text \<open>
  \<open>extFromContentType\<close>, the same text in \<open>server.js\<close> (lines 36-43) and in the server of
  \<open>netlify/functions/samples-link.js\<close> (lines 152-159). \<open>String(ct)\<close> is the identity on
  a string.
\<close>

definition extFromContentType :: "string \<Rightarrow> string" where
  "extFromContentType ct =
     (let t = toLowerCase ct
      in if includesStr t ''audio/webm'' then ''.webm''
         else if includesStr t ''audio/wav'' then ''.wav''
         else if includesStr t ''audio/mpeg'' \<or> includesStr t ''audio/mp3'' then ''.mp3''
         else if includesStr t ''audio/ogg'' then ''.ogg''
         else ''.bin'')"

section \<open>JavaScript values\<close>

text \<open>
  The values the handlers build, read from a parsed JSON body and hand to
  \<open>JSON.stringify\<close>. An object is the list of its properties in insertion order, each key
  once. \<open>JSON.stringify\<close> leaves out a property whose value is \<open>undefined\<close>. Numbers
  are integers here: the handlers store lengths and counts and test a parsed number only
  for being zero.
\<close>

datatype jsval =
    JUndefined
  | JNull
  | JBool bool
  | JNum int
  | JStr string
  | JArr "jsval list"
  | JObj "(string \<times> jsval) list"

text \<open>\<open>Boolean(v)\<close>, the test behind \<open>!v\<close>, \<open>a || b\<close> and \<open>.filter(Boolean)\<close>.\<close>

fun truthy :: "jsval \<Rightarrow> bool" where
  "truthy JUndefined = False"
| "truthy JNull = False"
| "truthy (JBool b) = b"
| "truthy (JNum n) = (n \<noteq> 0)"
| "truthy (JStr s) = (s \<noteq> [])"
| "truthy (JArr vs) = True"
| "truthy (JObj ps) = True"

definition js_or :: "jsval \<Rightarrow> jsval \<Rightarrow> jsval" where
  "js_or a b = (if truthy a then a else b)"

text \<open>
  \<open>v.k\<close> as destructuring reads it, for the property names the handlers use (none of them
  is inherited from a prototype): the property of an object, \<open>undefined\<close> when it is
  absent or when \<open>v\<close> is a number, a string, a boolean or an array.
\<close>

fun getProp :: "jsval \<Rightarrow> string \<Rightarrow> jsval" where
  "getProp (JObj ps) k = (case map_of ps k of None \<Rightarrow> JUndefined | Some v \<Rightarrow> v)"
| "getProp v k = JUndefined"

text \<open>A destructuring default \<open>{ k = d }\<close>: it replaces \<open>undefined\<close> only.\<close>

definition dflt :: "jsval \<Rightarrow> jsval \<Rightarrow> jsval" where
  "dflt v d = (if v = JUndefined then d else v)"

text \<open>\<open>h || d\<close> for a header or query value \<open>h\<close> that may be absent or empty.\<close>

definition orElse :: "string option \<Rightarrow> string \<Rightarrow> string" where
  "orElse h d = (case h of None \<Rightarrow> d | Some s \<Rightarrow> if s = [] then d else s)"

section \<open>The filesystem as the handlers use it\<close>

type_synonym bytes = "8 word list"

text \<open>
  The directories of \<open>server.js\<close> (\<open>DATA_DIR\<close>) and of the partitioned server in
  \<open>netlify/functions/samples-link.js\<close> (the other five). A path is a directory and a file
  name; \<open>path.basename\<close> of it is the name.
\<close>

datatype dir = DATA_DIR | DATA_ROOT | AUDIO_EN_DIR | AUDIO_HT_DIR | PAIRS_DIR | MANIFESTS_DIR

datatype fdata =
    Raw bytes
  | JsonText jsval

datatype fs_call =
    Mkdir dir
  | WriteFile dir string fdata

datatype error =
    BodyTooLarge int
  | FsError fs_call
  | DirError dir
  | StatError dir string
  | SyntaxError
  | TypeError

text \<open>
  What one request gets from its surroundings: the value of \<open>randomUUID()\<close>, of
  \<open>new Date().toISOString()\<close>, of \<open>Date.now()\<close> and \<open>Math.random().toString(36)\<close> as text,
  of \<open>parseInt(process.env.MAX_FILE_SIZE)\<close> (\<open>None\<close> for \<open>NaN\<close>), and which filesystem
  calls throw.
\<close>

record env =
  uuid :: string
  now :: string
  dateNow :: string
  rand36 :: string
  maxFileSizeEnv :: "int option"
  fails :: "fs_call \<Rightarrow> bool"

text \<open>
  Straight-line filesystem calls: they run in order until one throws. The result is the
  calls that completed and the error thrown, if any.
\<close>

fun perform :: "(fs_call \<Rightarrow> bool) \<Rightarrow> fs_call list \<Rightarrow> fs_call list \<times> error option" where
  "perform fl [] = ([], None)"
| "perform fl (c # cs) =
     (if fl c then ([], Some (FsError c))
      else (case perform fl cs of (done, e) \<Rightarrow> (c # done, e)))"

text \<open>\<open>ensureDir\<close> of \<open>server.js\<close> (lines 31-33) swallows the error of \<open>mkdirSync\<close>.\<close>

definition ensureDir_quiet :: "(fs_call \<Rightarrow> bool) \<Rightarrow> dir \<Rightarrow> fs_call list" where
  "ensureDir_quiet fl d = (if fl (Mkdir d) then [] else [Mkdir d])"

section \<open>Requests and responses of the Node servers\<close>

text \<open>
  A request: \<open>url.pathname\<close>, \<open>url.searchParams.get('kind')\<close>, the \<open>content-type\<close> and
  \<open>user-agent\<close> headers, \<open>req.socket.remoteAddress\<close>, the chunks the body arrives in,
  and what \<open>JSON.parse(body.toString('utf8'))\<close> gives on the whole body (\<open>None\<close> when it
  throws).
\<close>

record request =
  pathname :: string
  kindParam :: "string option"
  contentTypeHeader :: "string option"
  userAgentHeader :: "string option"
  remoteAddress :: "string option"
  chunks :: "bytes list"
  bodyJson :: "jsval option"

text \<open>
  A response: the status, the object given to \<open>JSON.stringify\<close> for the body, and, for a
  caught error \<open>err\<close>, the error whose text \<open>String(err)\<close> (or \<open>err.message\<close>) the body
  carries as \<open>details\<close>.
\<close>

record response =
  status :: nat
  jsonBody :: jsval
  details :: "error option"

definition failed :: "string \<Rightarrow> error \<Rightarrow> response" where
  "failed msg err =
     \<lparr>status = 500, jsonBody = JObj [(''ok'', JBool False), (''error'', JStr msg)],
      details = Some err\<rparr>"

section \<open>Reading the body\<close>

text \<open>\<open>MAX_FILE_SIZE\<close> (samples-link.js line 125): \<open>parseInt(...) || 10 * 1024 * 1024\<close>.\<close>

definition MAX_FILE_SIZE :: "int option \<Rightarrow> int" where
  "MAX_FILE_SIZE v = (case v of None \<Rightarrow> 10 * 1024 * 1024
                      | Some n \<Rightarrow> if n = 0 then 10 * 1024 * 1024 else n)"

text \<open>
  \<open>readBody(req, maxSize)\<close> of the partitioned server (samples-link.js lines 180-193): the
  loop adds each chunk's length to \<open>totalSize\<close> and throws as soon as the total exceeds
  \<open>maxSize\<close>; otherwise it returns the chunks concatenated.
\<close>

fun readBody_loop :: "int \<Rightarrow> bytes list \<Rightarrow> int \<Rightarrow> bytes list \<Rightarrow> error + bytes" where
  "readBody_loop maxSize [] totalSize acc = Inr (concat acc)"
| "readBody_loop maxSize (chunk # rest) totalSize acc =
     (let totalSize' = totalSize + int (length chunk)
      in if totalSize' > maxSize then Inl (BodyTooLarge maxSize)
         else readBody_loop maxSize rest totalSize' (acc @ [chunk]))"

definition readBody :: "bytes list \<Rightarrow> int \<Rightarrow> error + bytes" where
  "readBody cs maxSize = readBody_loop maxSize cs 0 []"

text \<open>\<open>readBody(req)\<close> of \<open>server.js\<close> (lines 66-70): every chunk is kept, with no bound.\<close>

definition readBody_unbounded :: "bytes list \<Rightarrow> bytes" where
  "readBody_unbounded cs = concat cs"

section \<open>Audio ingest: POST /api/asr/:lang\<close>

text \<open>\<open>parts[3] || 'en'\<close> for \<open>parts = url.pathname.split('/')\<close>.\<close>

definition langSegment :: "string \<Rightarrow> string" where
  "langSegment p =
     (let parts = split CHR ''/'' p
      in if 3 < length parts \<and> parts ! 3 \<noteq> [] then parts ! 3 else ''en'')"

text \<open>
  The handler of the partitioned server (samples-link.js lines 254-299). It returns the
  response and the filesystem calls that completed.
\<close>

definition asr_metadata :: "env \<Rightarrow> request \<Rightarrow> string \<Rightarrow> bytes \<Rightarrow> (string \<times> jsval) list" where
  "asr_metadata e req lang body =
     (let contentType = orElse (contentTypeHeader req) ''application/octet-stream'';
          ext = extFromContentType contentType
      in [(''kind'', JStr ''audio''),
          (''id'', JStr (uuid e)),
          (''lang'', JStr (if lang = ''ht'' then ''ht-HT'' else ''en-US'')),
          (''createdAt'', JStr (now e)),
          (''ip'', (case remoteAddress req of None \<Rightarrow> JUndefined | Some a \<Rightarrow> JStr a)),
          (''userAgent'', JStr (orElse (userAgentHeader req) '''')),
          (''contentType'', JStr contentType),
          (''bytes'', JNum (int (length body))),
          (''audioFile'', JStr (uuid e @ ext)),
          (''transcript'', JStr (if lang = ''ht'' then ''Bonjou mond (ASR stub)''
                                 else ''Hello World (ASR stub)'')),
          (''codec'', JStr (if ext = ''.wav'' then ''pcm_s16le''
                            else if ext = ''.webm'' then ''opus'' else ''unknown'')),
          (''sr'', JNull),
          (''duration_s'', JNull),
          (''domain'', JArr [])])"

definition asr_handler :: "env \<Rightarrow> request \<Rightarrow> response \<times> fs_call list" where
  "asr_handler e req =
     (let lang = toLowerCase (langSegment (pathname req))
      in case readBody (chunks req) (MAX_FILE_SIZE (maxFileSizeEnv e)) of
           Inl err \<Rightarrow> (failed ''ASR save failed'' err, [])
         | Inr body \<Rightarrow>
             (let contentType = orElse (contentTypeHeader req) ''application/octet-stream'';
                  ext = extFromContentType contentType;
                  folder = (if lang = ''ht'' then AUDIO_HT_DIR else AUDIO_EN_DIR);
                  metadata = asr_metadata e req lang body
              in case perform (fails e)
                        [Mkdir folder, Mkdir MANIFESTS_DIR,
                         WriteFile folder (uuid e @ ext) (Raw body),
                         WriteFile folder (uuid e @ ''.json'') (JsonText (JObj metadata))] of
                   (done, Some err) \<Rightarrow> (failed ''ASR save failed'' err, done)
                 | (done, None) \<Rightarrow>
                     (\<lparr>status = 200, jsonBody = JObj ((''ok'', JBool True) # metadata),
                       details = None\<rparr>, done)))"

text \<open>The handler of \<open>server.js\<close> (lines 105-152): one directory, the segment taken as it is.\<close>

definition asr_metadata_legacy :: "env \<Rightarrow> request \<Rightarrow> string \<Rightarrow> bytes \<Rightarrow> (string \<times> jsval) list" where
  "asr_metadata_legacy e req lang body =
     (let contentType = orElse (contentTypeHeader req) ''application/octet-stream'';
          ext = extFromContentType contentType
      in [(''kind'', JStr ''audio''),
          (''id'', JStr (uuid e)),
          (''lang'', JStr lang),
          (''createdAt'', JStr (now e)),
          (''ip'', (case remoteAddress req of None \<Rightarrow> JUndefined | Some a \<Rightarrow> JStr a)),
          (''userAgent'', JStr (orElse (userAgentHeader req) '''')),
          (''contentType'', JStr contentType),
          (''bytes'', JNum (int (length body))),
          (''audioFile'', JStr (uuid e @ ext)),
          (''transcript'', JStr (if lang = ''ht'' then ''Bonjou mond (ASR stub)''
                                 else ''Hello World (ASR stub)'')),
          (''notes'', JStr ''Replace transcript with real ASR later.'')])"

definition asr_handler_legacy :: "env \<Rightarrow> request \<Rightarrow> response \<times> fs_call list" where
  "asr_handler_legacy e req =
     (let made = ensureDir_quiet (fails e) DATA_DIR;
          lang = langSegment (pathname req);
          body = readBody_unbounded (chunks req);
          contentType = orElse (contentTypeHeader req) ''application/octet-stream'';
          ext = extFromContentType contentType;
          metadata = asr_metadata_legacy e req lang body
      in case perform (fails e)
                [WriteFile DATA_DIR (uuid e @ ext) (Raw body),
                 WriteFile DATA_DIR (uuid e @ ''.json'') (JsonText (JObj metadata))] of
           (done, Some err) \<Rightarrow> (failed ''ASR save failed'' err, made @ done)
         | (done, None) \<Rightarrow>
             (\<lparr>status = 200, jsonBody = JObj ((''ok'', JBool True) # metadata), details = None\<rparr>,
              made @ done))"

section \<open>The Netlify functions\<close>

text \<open>
  An event: \<open>event.httpMethod\<close>, \<open>event.path\<close>, the \<open>content-type\<close> header,
  \<open>event.body ? event.body.length : 0\<close>, and what \<open>JSON.parse(event.body || '{}')\<close> gives
  (\<open>None\<close> when it throws; an absent or empty body parses as the empty object).
\<close>

record event =
  httpMethod :: string
  path :: string
  eventContentType :: "string option"
  bodyLength :: nat
  payloadJson :: "jsval option"

definition preflight :: response where
  "preflight = \<lparr>status = 204, jsonBody = JStr '''', details = None\<rparr>"

definition methodNotAllowed :: response where
  "methodNotAllowed =
     \<lparr>status = 405,
      jsonBody = JObj [(''ok'', JBool False), (''error'', JStr ''Method not allowed''),
                   (''message'', JStr ''This endpoint only accepts POST requests'')],
      details = None\<rparr>"

text \<open>A string between single quotes, as the template literal of the 400 message writes it.\<close>

definition quoted :: "string \<Rightarrow> string" where
  "quoted s = [CHR 0x27] @ s @ [CHR 0x27]"

text \<open>
  The handler of \<open>netlify/functions/asr-upload.js\<close>. The function makes no filesystem call;
  the empty list of calls is returned beside the response, as the servers' handlers do.
\<close>

definition asr_upload_handler :: "env \<Rightarrow> event \<Rightarrow> response \<times> fs_call list" where
  "asr_upload_handler e ev =
     (if httpMethod ev = ''OPTIONS'' then (preflight, [])
      else if httpMethod ev \<noteq> ''POST'' then (methodNotAllowed, [])
      else
        (let pathParts = split CHR ''/'' (path ev);
             lang = last pathParts
         in if lang \<noteq> ''en'' \<and> lang \<noteq> ''ht'' then
              (\<lparr>status = 400,
                jsonBody = JObj [(''ok'', JBool False), (''error'', JStr ''Invalid language parameter''),
                             (''message'', JStr (''Language must be '' @ quoted ''en'' @ '' or '' @ quoted ''ht''
                                                @ '', got '' @ quoted lang))],
                details = None\<rparr>, [])
            else
              (let audioId = ''temp-'' @ dateNow e @ ''-'' @ rand36 e
               in (\<lparr>status = 200,
                     jsonBody = JObj [(''ok'', JBool True), (''kind'', JStr ''audio''),
                       (''id'', JStr audioId),
                       (''lang'', JStr (if lang = ''ht'' then ''ht-HT'' else ''en-US'')),
                       (''createdAt'', JStr (now e)),
                       (''contentType'',
                          JStr (orElse (eventContentType ev) ''application/octet-stream'')),
                       (''bytes'', JNum (int (bodyLength ev))),
                       (''audioFile'', JStr (audioId @ ''.webm'')),
                       (''transcript'', JStr (if lang = ''ht'' then ''Bonjou mond (Temp ASR)''
                                              else ''Hello World (Temp ASR)'')),
                       (''codec'', JStr ''opus''), (''sr'', JNull), (''duration_s'', JNull),
                       (''domain'', JArr []), (''status'', JStr ''temporary''),
                       (''message'', JStr ''This is a temporary response. Backend deployment needed for full functionality.'')],
                     details = None\<rparr>, []))))"

section \<open>Pair linking: POST /api/samples/link\<close>

text \<open>\<open>xs.join(sep)\<close>.\<close>

fun join :: "string \<Rightarrow> string list \<Rightarrow> string" where
  "join sep [] = []"
| "join sep [x] = x"
| "join sep (x # y # ys) = x @ sep @ join sep (y # ys)"

text \<open>
  The handler of the Netlify function (samples-link.js lines 2-101). \<open>missingFields\<close> is
  \<open>Object.entries(requiredFields).filter(([key, value]) => !value).map(([key]) => key)\<close>.
  Destructuring \<open>null\<close> throws a \<open>TypeError\<close>, caught with the rest.
\<close>

definition requiredNames :: "string list" where
  "requiredNames = [''term'', ''category'', ''enAudioId'', ''htAudioId'']"

definition missingFields :: "jsval \<Rightarrow> string list" where
  "missingFields payload =
     map fst (filter (\<lambda>(key, value). \<not> truthy value)
                (map (\<lambda>k. (k, getProp payload k)) requiredNames))"

definition link_failed_netlify :: "error \<Rightarrow> response" where
  "link_failed_netlify err =
     \<lparr>status = 500,
      jsonBody = JObj [(''ok'', JBool False), (''error'', JStr ''Internal server error''),
                   (''message'', JStr ''Sample linking failed temporarily. Backend deployment needed.'')],
      details = Some err\<rparr>"

definition link_handler_netlify :: "env \<Rightarrow> event \<Rightarrow> response \<times> fs_call list" where
  "link_handler_netlify e ev =
     (if httpMethod ev = ''OPTIONS'' then (preflight, [])
      else if httpMethod ev \<noteq> ''POST'' then (methodNotAllowed, [])
      else
        (case payloadJson ev of
           None \<Rightarrow> (link_failed_netlify SyntaxError, [])
         | Some payload \<Rightarrow>
             if payload = JNull \<or> payload = JUndefined then (link_failed_netlify TypeError, [])
             else
               (let term = getProp payload ''term''; category = getProp payload ''category'';
                    enText = getProp payload ''enText''; htText = getProp payload ''htText'';
                    enAudioId = getProp payload ''enAudioId''; htAudioId = getProp payload ''htAudioId'';
                    annotator = getProp payload ''annotator''; consent = getProp payload ''consent'';
                    missing = missingFields payload
                in if length missing > 0 \<or> \<not> truthy consent then
                     (\<lparr>status = 400,
                       jsonBody = JObj [(''ok'', JBool False),
                         (''error'', JStr (if length missing > 0
                                           then ''Missing required fields: '' @ join '', '' missing
                                           else ''Consent is required'')),
                         (''missingFields'', (if length missing > 0 then JArr (map JStr missing)
                                              else JUndefined))],
                       details = None\<rparr>, [])
                   else
                     (let sampleId = ''temp-sample-'' @ dateNow e @ ''-'' @ rand36 e;
                          mockRecord = JObj [(''kind'', JStr ''pair''), (''sampleId'', JStr sampleId),
                            (''createdAt'', JStr (now e)), (''term'', term), (''category'', category),
                            (''annotator'', js_or annotator (JStr ''anonymous'')),
                            (''consent'', JBool (truthy consent)),
                            (''en'', JObj [(''text'', js_or enText term), (''audioRef'', enAudioId)]),
                            (''ht'', JObj [(''text'', js_or htText (JStr '''')), (''audioRef'', htAudioId)]),
                            (''status'', JStr ''temporary''),
                            (''message'', JStr ''This is a temporary response. Backend deployment needed for permanent storage.'')]
                      in (\<lparr>status = 200,
                            jsonBody = JObj [(''ok'', JBool True), (''sampleId'', JStr sampleId),
                                         (''record'', mockRecord)],
                            details = None\<rparr>, [])))))"

text \<open>
  The handler of the partitioned server (samples-link.js lines 305-346):
  \<open>ensureDir(PAIRS_DIR)\<close>, the body read under the size bound and parsed, the fields
  destructured from \<open>payload || {}\<close>, one test for the four required fields and consent,
  then the record written to \<open>PAIRS_DIR\<close>.
\<close>

definition link_handler :: "env \<Rightarrow> request \<Rightarrow> response \<times> fs_call list" where
  "link_handler e req =
     (case perform (fails e) [Mkdir PAIRS_DIR] of
        (made, Some err) \<Rightarrow> (failed ''Linking failed'' err, made)
      | (made, None) \<Rightarrow>
          (case readBody (chunks req) (MAX_FILE_SIZE (maxFileSizeEnv e)) of
             Inl err \<Rightarrow> (failed ''Linking failed'' err, made)
           | Inr bd \<Rightarrow>
               (case bodyJson req of
                  None \<Rightarrow> (failed ''Linking failed'' SyntaxError, made)
                | Some parsed \<Rightarrow>
                    (let payload = js_or parsed (JObj []);
                         term = getProp payload ''term''; category = getProp payload ''category'';
                         enText = getProp payload ''enText''; htText = getProp payload ''htText'';
                         enAudioId = getProp payload ''enAudioId''; htAudioId = getProp payload ''htAudioId'';
                         annotator = dflt (getProp payload ''annotator'') (JStr ''anonymous'');
                         consent = dflt (getProp payload ''consent'') (JBool False)
                     in if \<not> truthy term \<or> \<not> truthy category \<or> \<not> truthy enAudioId
                           \<or> \<not> truthy htAudioId \<or> \<not> truthy consent then
                          (\<lparr>status = 400,
                            jsonBody = JObj [(''ok'', JBool False),
                                         (''error'', JStr ''Missing required fields or consent=false'')],
                            details = None\<rparr>, made)
                        else
                          (let sampleId = uuid e;
                               record = JObj [(''kind'', JStr ''pair''), (''sampleId'', JStr sampleId),
                                 (''createdAt'', JStr (now e)), (''term'', term),
                                 (''category'', category), (''annotator'', annotator),
                                 (''consent'', JBool (truthy consent)),
                                 (''en'', JObj [(''text'', js_or enText term), (''audioRef'', enAudioId)]),
                                 (''ht'', JObj [(''text'', js_or htText (JStr '''')), (''audioRef'', htAudioId)])]
                           in case perform (fails e)
                                     [WriteFile PAIRS_DIR (sampleId @ ''.pair.json'') (JsonText record)] of
                                (done, Some err) \<Rightarrow> (failed ''Linking failed'' err, made @ done)
                              | (done, None) \<Rightarrow>
                                  (\<lparr>status = 200,
                                    jsonBody = JObj [(''ok'', JBool True), (''sampleId'', JStr sampleId),
                                                 (''record'', record)],
                                    details = None\<rparr>, made @ done))))))"

text \<open>
  The handler of \<open>server.js\<close> (lines 166-211): the body read whole, no \<open>consent\<close> among the
  fields it destructures, and the record written to \<open>DATA_DIR\<close>.
\<close>

definition link_handler_legacy :: "env \<Rightarrow> request \<Rightarrow> response \<times> fs_call list" where
  "link_handler_legacy e req =
     (let made = ensureDir_quiet (fails e) DATA_DIR
      in case bodyJson req of
           None \<Rightarrow> (failed ''Linking failed'' SyntaxError, made)
         | Some parsed \<Rightarrow>
             (let payload = js_or parsed (JObj []);
                  term = getProp payload ''term''; category = getProp payload ''category'';
                  enText = getProp payload ''enText''; htText = getProp payload ''htText'';
                  enAudioId = getProp payload ''enAudioId''; htAudioId = getProp payload ''htAudioId'';
                  annotator = dflt (getProp payload ''annotator'') (JStr ''anonymous'')
              in if \<not> truthy term \<or> \<not> truthy category \<or> \<not> truthy enAudioId
                    \<or> \<not> truthy htAudioId then
                   (\<lparr>status = 400,
                     jsonBody = JObj [(''ok'', JBool False), (''error'', JStr ''Missing required fields'')],
                     details = None\<rparr>, made)
                 else
                   (let sampleId = uuid e;
                        record = JObj [(''kind'', JStr ''pair''), (''sampleId'', JStr sampleId),
                          (''createdAt'', JStr (now e)), (''term'', term),
                          (''category'', category), (''annotator'', annotator),
                          (''en'', JObj [(''text'', js_or enText term), (''audioRef'', enAudioId)]),
                          (''ht'', JObj [(''text'', js_or htText (JStr '''')), (''audioRef'', htAudioId)])]
                    in case perform (fails e)
                              [WriteFile DATA_DIR (sampleId @ ''.pair.json'') (JsonText record)] of
                         (done, Some err) \<Rightarrow> (failed ''Linking failed'' err, made @ done)
                       | (done, None) \<Rightarrow>
                           (\<lparr>status = 200,
                             jsonBody = JObj [(''ok'', JBool True), (''sampleId'', JStr sampleId),
                                          (''record'', record)],
                             details = None\<rparr>, made @ done))))"

section \<open>Listing: GET /api/samples\<close>

text \<open>
  A file as the listing sees it: its name, \<open>statSync(...).mtimeMs\<close> (a finite number, of
  which the sort uses the order only; \<open>None\<close> when \<open>statSync\<close> throws, as it does on a
  dangling symbolic link), and what \<open>JSON.parse(fs.readFileSync(f, 'utf8'))\<close> gives
  (\<open>None\<close> when reading or parsing throws).
  The store of the partitioned server: whether \<open>ensureDir(DATA_ROOT)\<close> succeeds, and for
  each of the three directories what \<open>ensureDir\<close> followed by \<open>readdirSync\<close> gives (\<open>None\<close>
  when either throws; a directory that was missing is created and read as empty).
\<close>

record fileinfo =
  fname :: string
  mtimeMs :: "real option"
  json :: "jsval option"

record store =
  root_ok :: bool
  en_files :: "fileinfo list option"
  ht_files :: "fileinfo list option"
  pair_files :: "fileinfo list option"

type_synonym entry = "dir \<times> fileinfo"

definition readdir :: "dir \<Rightarrow> fileinfo list option \<Rightarrow> string \<Rightarrow> error + entry list" where
  "readdir d fs ending =
     (case fs of None \<Rightarrow> Inl (DirError d)
      | Some names \<Rightarrow> Inr (map (Pair d) (filter (\<lambda>f. endsWith (fname f) ending) names)))"

text \<open>The loop that fills \<open>collect\<close> (samples-link.js lines 354-368).\<close>

definition collect :: "store \<Rightarrow> string \<Rightarrow> error + entry list" where
  "collect st kind =
     (if \<not> root_ok st then Inl (DirError DATA_ROOT)
      else
        (case (if kind = ''audio'' \<or> kind = ''all'' then
                 (case readdir AUDIO_EN_DIR (en_files st) ''.json'' of
                    Inl err \<Rightarrow> Inl err
                  | Inr en \<Rightarrow>
                      (case readdir AUDIO_HT_DIR (ht_files st) ''.json'' of
                         Inl err \<Rightarrow> Inl err
                       | Inr ht \<Rightarrow> Inr (en @ ht)))
               else Inr []) of
           Inl err \<Rightarrow> Inl err
         | Inr audio \<Rightarrow>
             (case (if kind = ''pair'' \<or> kind = ''all'' then
                      readdir PAIRS_DIR (pair_files st) ''.pair.json''
                    else Inr []) of
                Inl err \<Rightarrow> Inl err
              | Inr pairs \<Rightarrow> Inr (audio @ pairs))))"

text \<open>
  \<open>.map(f => ({ f, m: fs.statSync(f).mtimeMs }))\<close>: each collected file in turn gets its
  modification time. \<open>statSync\<close> stands outside the per-file \<open>try\<close>, so the first file
  it throws on ends the whole pipeline with that error.
\<close>

type_synonym stamped = "entry \<times> real"

fun statAll :: "entry list \<Rightarrow> error + stamped list" where
  "statAll [] = Inr []"
| "statAll (x # xs) =
     (case mtimeMs (snd x) of
        None \<Rightarrow> Inl (StatError (fst x) (fname (snd x)))
      | Some m \<Rightarrow> (case statAll xs of Inl err \<Rightarrow> Inl err | Inr ys \<Rightarrow> Inr ((x, m) # ys)))"

text \<open>
  \<open>.sort((a, b) => b.m - a.m)\<close>: the sort is stable and puts \<open>a\<close> before \<open>b\<close> when \<open>a\<close> is
  newer. \<open>.slice(0, 50)\<close> keeps the first fifty.
\<close>

fun insertNewest :: "stamped \<Rightarrow> stamped list \<Rightarrow> stamped list" where
  "insertNewest x [] = [x]"
| "insertNewest x (y # ys) =
     (if snd y \<le> snd x then x # y # ys else y # insertNewest x ys)"

definition sortNewestFirst :: "stamped list \<Rightarrow> stamped list" where
  "sortNewestFirst xs = foldr insertNewest xs []"

definition newest50 :: "stamped list \<Rightarrow> stamped list" where
  "newest50 xs = take 50 (sortNewestFirst xs)"

text \<open>\<open>try { return JSON.parse(fs.readFileSync(f, 'utf8')); } catch { return null; }\<close>\<close>

definition readJson :: "stamped \<Rightarrow> jsval" where
  "readJson x = (case json (snd (fst x)) of None \<Rightarrow> JNull | Some v \<Rightarrow> v)"

definition items_of :: "stamped list \<Rightarrow> jsval list" where
  "items_of xs = filter truthy (map readJson (newest50 xs))"

definition list_ok :: "string \<Rightarrow> jsval list \<Rightarrow> response" where
  "list_ok kind items =
     \<lparr>status = 200,
      jsonBody = JObj [(''ok'', JBool True), (''count'', JNum (int (length items))),
                   (''kind'', JStr kind), (''items'', JArr items)],
      details = None\<rparr>"

text \<open>
  The pipeline from the selected files to the response, shared by both handlers: a throw
  of \<open>statSync\<close> reaches the handler's outer \<open>catch\<close> and is answered 500.
\<close>

definition list_selected :: "string \<Rightarrow> entry list \<Rightarrow> response" where
  "list_selected kind xs =
     (case statAll xs of
        Inl err \<Rightarrow> failed ''List failed'' err
      | Inr ys \<Rightarrow> list_ok kind (items_of ys))"

text \<open>The handler of the partitioned server (samples-link.js lines 349-387).\<close>

definition list_handler :: "store \<Rightarrow> request \<Rightarrow> response" where
  "list_handler st req =
     (let kind = toLowerCase (orElse (kindParam req) ''all'')
      in case collect st kind of
           Inl err \<Rightarrow> failed ''List failed'' err
         | Inr xs \<Rightarrow> list_selected kind xs)"

text \<open>
  The handler of \<open>server.js\<close> (lines 216-251): one directory, the kinds told apart by the
  file name; its argument is what \<open>readdirSync(DATA_DIR)\<close> gives (\<open>None\<close> when it throws).
\<close>

definition selected_legacy :: "string \<Rightarrow> fileinfo list \<Rightarrow> entry list" where
  "selected_legacy kind files =
     map (Pair DATA_DIR)
       (filter (\<lambda>f. if kind = ''audio'' then
                       endsWith (fname f) ''.json'' \<and> \<not> endsWith (fname f) ''.pair.json''
                     else if kind = ''pair'' then endsWith (fname f) ''.pair.json''
                     else endsWith (fname f) ''.json'') files)"

definition list_handler_legacy :: "fileinfo list option \<Rightarrow> request \<Rightarrow> response" where
  "list_handler_legacy data req =
     (let kind = toLowerCase (orElse (kindParam req) ''all'')
      in case data of
           None \<Rightarrow> failed ''List failed'' (DirError DATA_DIR)
         | Some files \<Rightarrow> list_selected kind (selected_legacy kind files))"

text \<open>The \<open>items\<close> array of a response body, empty when the body has none.\<close>

definition response_items :: "response \<Rightarrow> jsval list" where
  "response_items r = (case getProp (jsonBody r) ''items'' of JArr vs \<Rightarrow> vs | _ \<Rightarrow> [])"

section \<open>Sample requests and stores\<close>

text \<open>
  An environment in which no filesystem call throws and \<open>MAX_FILE_SIZE\<close> is unset, and the
  requests and stores the theorems below are evaluated on.
\<close>

definition env0 :: env where
  "env0 = \<lparr>uuid = ''u1'', now = ''2025-01-01T00:00:00.000Z'', dateNow = ''1735689600000'',
            rand36 = ''k3x9q'', maxFileSizeEnv = None, fails = (\<lambda>c. False)\<rparr>"

text \<open>\<open>POST /api/asr/fr\<close>, three bytes of \<open>audio/webm\<close>.\<close>

definition req_asr_fr :: request where
  "req_asr_fr =
     \<lparr>pathname = ''/api/asr/fr'', kindParam = None, contentTypeHeader = Some ''audio/webm'',
      userAgentHeader = Some ''curl/8.0'', remoteAddress = Some ''203.0.113.7'',
      chunks = [[97, 98, 99]], bodyJson = None\<rparr>"

text \<open>\<open>POST /api/samples/link\<close> with a given parsed body, sent in one chunk of two bytes.\<close>

definition req_link :: "jsval \<Rightarrow> request" where
  "req_link payload =
     \<lparr>pathname = ''/api/samples/link'', kindParam = None,
      contentTypeHeader = Some ''application/json'', userAgentHeader = None,
      remoteAddress = Some ''203.0.113.7'', chunks = [[123, 125]], bodyJson = Some payload\<rparr>"

definition payload_diabetes :: jsval where
  "payload_diabetes =
     JObj [(''term'', JStr ''Diabetes''), (''category'', JStr ''medical''),
           (''enAudioId'', JStr ''x''), (''htAudioId'', JStr ''y''), (''consent'', JBool True)]"

definition payload_no_category :: jsval where
  "payload_no_category =
     JObj [(''term'', JStr ''Diabetes''), (''enAudioId'', JStr ''x''),
           (''htAudioId'', JStr ''y''), (''consent'', JBool True)]"

definition payload_no_consent :: jsval where
  "payload_no_consent =
     JObj [(''term'', JStr ''Diabetes''), (''category'', JStr ''medical''),
           (''enAudioId'', JStr ''x''), (''htAudioId'', JStr ''y''), (''consent'', JBool False)]"

text \<open>\<open>POST /api/asr/en\<close> with a body of 10 MiB and one byte, in one chunk.\<close>

definition req_asr_big :: request where
  "req_asr_big =
     \<lparr>pathname = ''/api/asr/en'', kindParam = None, contentTypeHeader = Some ''audio/webm'',
      userAgentHeader = Some ''curl/8.0'', remoteAddress = Some ''203.0.113.7'',
      chunks = [replicate 10485761 0], bodyJson = None\<rparr>"

text \<open>The events the Netlify functions get for the sample requests.\<close>

definition ev_asr_fr :: event where
  "ev_asr_fr =
     \<lparr>httpMethod = ''POST'', path = ''/api/asr/fr'', eventContentType = Some ''audio/webm'',
      bodyLength = 3, payloadJson = None\<rparr>"

definition ev_link :: "jsval \<Rightarrow> event" where
  "ev_link payload =
     \<lparr>httpMethod = ''POST'', path = ''/api/samples/link'',
      eventContentType = Some ''application/json'', bodyLength = 2, payloadJson = Some payload\<rparr>"

text \<open>\<open>GET /api/samples\<close> with a given \<open>kind\<close> parameter.\<close>

definition req_list :: "string option \<Rightarrow> request" where
  "req_list k =
     \<lparr>pathname = ''/api/samples'', kindParam = k, contentTypeHeader = None,
      userAgentHeader = None, remoteAddress = Some ''203.0.113.7'', chunks = [], bodyJson = None\<rparr>"

text \<open>
  A store with two English sidecars (one of them unreadable as JSON) beside a blob, one
  Haitian-Creole sidecar and one pair.
\<close>

definition store_small :: store where
  "store_small =
     \<lparr>root_ok = True,
      en_files = Some [\<lparr>fname = ''a.json'', mtimeMs = Some 10, json = Some (JObj [(''id'', JStr ''a'')])\<rparr>,
                       \<lparr>fname = ''a.webm'', mtimeMs = Some 10, json = None\<rparr>,
                       \<lparr>fname = ''b.json'', mtimeMs = Some 30, json = None\<rparr>],
      ht_files = Some [\<lparr>fname = ''c.json'', mtimeMs = Some 20, json = Some (JObj [(''id'', JStr ''c'')])\<rparr>],
      pair_files = Some [\<lparr>fname = ''p.pair.json'', mtimeMs = Some 40,
                          json = Some (JObj [(''sampleId'', JStr ''p'')])\<rparr>]\<rparr>"

text \<open>The same files in the single directory of \<open>server.js\<close>.\<close>

definition files_small :: "fileinfo list" where
  "files_small =
     [\<lparr>fname = ''a.json'', mtimeMs = Some 10, json = Some (JObj [(''id'', JStr ''a'')])\<rparr>,
      \<lparr>fname = ''a.webm'', mtimeMs = Some 10, json = None\<rparr>,
      \<lparr>fname = ''b.json'', mtimeMs = Some 30, json = None\<rparr>,
      \<lparr>fname = ''c.json'', mtimeMs = Some 20, json = Some (JObj [(''id'', JStr ''c'')])\<rparr>,
      \<lparr>fname = ''p.pair.json'', mtimeMs = Some 40, json = Some (JObj [(''sampleId'', JStr ''p'')])\<rparr>]"

text \<open>
  Fifty English sidecars \<open>a1.json\<close> .. \<open>a50.json\<close>, modified at times 1 to 50, each holding
  its number, and one older pair.
\<close>

definition digits :: "nat \<Rightarrow> string" where
  "digits n = (if n < 10 then [char_of (48 + n)]
               else [char_of (48 + n div 10), char_of (48 + n mod 10)])"

definition sidecar_numbered :: "nat \<Rightarrow> fileinfo" where
  "sidecar_numbered n =
     \<lparr>fname = ''a'' @ digits n @ ''.json'', mtimeMs = Some (real n), json = Some (JNum (int n))\<rparr>"

definition store_fifty :: store where
  "store_fifty =
     \<lparr>root_ok = True,
      en_files = Some (map sidecar_numbered [1..<51]),
      ht_files = Some [],
      pair_files = Some [\<lparr>fname = ''p.pair.json'', mtimeMs = Some 0,
                          json = Some (JObj [(''sampleId'', JStr ''p'')])\<rparr>]\<rparr>"

text \<open>
  A store whose English directory holds one entry \<open>x.json\<close> that \<open>statSync\<close> throws on (a
  dangling symbolic link), beside one pair; and the same two entries in the single
  directory of \<open>server.js\<close>.
\<close>

definition store_dangling :: store where
  "store_dangling =
     \<lparr>root_ok = True,
      en_files = Some [\<lparr>fname = ''x.json'', mtimeMs = None, json = None\<rparr>],
      ht_files = Some [],
      pair_files = Some [\<lparr>fname = ''p.pair.json'', mtimeMs = Some 40,
                          json = Some (JObj [(''sampleId'', JStr ''p'')])\<rparr>]\<rparr>"

definition files_dangling :: "fileinfo list" where
  "files_dangling =
     [\<lparr>fname = ''x.json'', mtimeMs = None, json = None\<rparr>,
      \<lparr>fname = ''p.pair.json'', mtimeMs = Some 40, json = Some (JObj [(''sampleId'', JStr ''p'')])\<rparr>]"

section \<open>Properties of the string helpers\<close>

lemma startsWith_prefix: "startsWith s p \<longleftrightarrow> prefix p s"
  by (induction s p rule: startsWith.induct) auto

lemma includesStr_sublist: "includesStr s p \<longleftrightarrow> sublist p s"
proof (induction s)
  case Nil
  then show ?case by simp
next
  case (Cons c cs)
  then show ?case
    by (simp add: startsWith_prefix sublist_Cons_right)
qed

lemma includesStr_append: "includesStr (a @ p @ b) p"
  by (simp add: includesStr_sublist)

lemma endsWith_suffix: "endsWith s p \<longleftrightarrow> suffix p s"
  by (simp add: endsWith_def startsWith_prefix suffix_to_prefix)

section \<open>The sort is a stable permutation, newest first\<close>

lemma mset_insertNewest: "mset (insertNewest x ys) = add_mset x (mset ys)"
  by (induction ys) simp_all

lemma set_insertNewest: "set (insertNewest x ys) = insert x (set ys)"
  by (induction ys) auto

lemma sorted_insertNewest:
  "sorted_wrt (\<lambda>x y. snd y \<le> snd x) ys \<Longrightarrow>
   sorted_wrt (\<lambda>x y. snd y \<le> snd x) (insertNewest x ys)"
proof (induction ys)
  case Nil
  then show ?case by simp
next
  case (Cons y ys)
  show ?case
  proof (cases "snd y \<le> snd x")
    case True
    with Cons.prems show ?thesis by auto
  next
    case False
    with Cons show ?thesis by (auto simp: set_insertNewest)
  qed
qed

lemma mset_sortNewestFirst: "mset (sortNewestFirst xs) = mset xs"
  unfolding sortNewestFirst_def by (induction xs) (simp_all add: mset_insertNewest)

lemma sorted_sortNewestFirst:
  "sorted_wrt (\<lambda>x y. snd y \<le> snd x) (sortNewestFirst xs)"
  unfolding sortNewestFirst_def by (induction xs) (simp_all add: sorted_insertNewest)

lemma set_sortNewestFirst: "set (sortNewestFirst xs) = set xs"
  using mset_sortNewestFirst [of xs] by (metis set_mset_mset)

lemma length_sortNewestFirst: "length (sortNewestFirst xs) = length xs"
  using mset_sortNewestFirst [of xs] by (metis size_mset)

text \<open>Entries of equal modification time keep the order they were collected in.\<close>

lemma filter_insertNewest:
  "sorted_wrt (\<lambda>x y. snd y \<le> snd x) ys \<Longrightarrow>
   filter (\<lambda>y. snd y = t) (insertNewest x ys)
   = (if snd x = t then x # filter (\<lambda>y. snd y = t) ys
      else filter (\<lambda>y. snd y = t) ys)"
  by (induction ys) (auto simp: filter_empty_conv)

lemma stable_sortNewestFirst:
  "filter (\<lambda>y. snd y = t) (sortNewestFirst xs) = filter (\<lambda>y. snd y = t) xs"
proof (induction xs)
  case Nil
  then show ?case by (simp add: sortNewestFirst_def)
next
  case (Cons x xs)
  have "sortNewestFirst (x # xs) = insertNewest x (sortNewestFirst xs)"
    by (simp add: sortNewestFirst_def)
  with Cons show ?case
    by (simp add: filter_insertNewest sorted_sortNewestFirst)
qed

lemma newest50_sorted: "sorted_wrt (\<lambda>x y. snd y \<le> snd x) (newest50 xs)"
  unfolding newest50_def by (rule sorted_wrt_take) (rule sorted_sortNewestFirst)

lemma newest50_length: "length (newest50 xs) = min 50 (length xs)"
  by (simp add: newest50_def length_sortNewestFirst)

lemma newest50_rest:
  "mset (newest50 xs @ drop 50 (sortNewestFirst xs)) = mset xs
   \<and> (\<forall>x\<in>set (newest50 xs). \<forall>y\<in>set (drop 50 (sortNewestFirst xs)). snd y \<le> snd x)"
proof -
  have "sorted_wrt (\<lambda>x y. snd y \<le> snd x)
          (take 50 (sortNewestFirst xs) @ drop 50 (sortNewestFirst xs))"
    by (simp add: sorted_sortNewestFirst)
  then have "\<forall>x\<in>set (take 50 (sortNewestFirst xs)). \<forall>y\<in>set (drop 50 (sortNewestFirst xs)).
               snd y \<le> snd x"
    unfolding sorted_wrt_append by blast
  then show ?thesis
    by (simp add: newest50_def mset_sortNewestFirst flip: mset_append)
qed

lemma newest50_short: "length xs \<le> 50 \<Longrightarrow> set (newest50 xs) = set xs"
  by (simp add: newest50_def length_sortNewestFirst set_sortNewestFirst)

lemma newest50_subset: "set (newest50 xs) \<subseteq> set xs"
  unfolding newest50_def using set_take_subset [of 50 "sortNewestFirst xs"]
  by (simp add: set_sortNewestFirst)

lemma items_of_alt: "items_of xs = map readJson (filter (\<lambda>x. truthy (readJson x)) (newest50 xs))"
  by (simp add: items_of_def filter_map comp_def)

section \<open>What the listing returns\<close>

lemma items_of_parsed:
  "items_of xs =
     List.map_filter (\<lambda>x. case json (snd (fst x)) of None \<Rightarrow> None
                            | Some v \<Rightarrow> if truthy v then Some v else None) (newest50 xs)"
proof -
  have "filter truthy (map readJson ys) =
        List.map_filter (\<lambda>x. case json (snd (fst x)) of None \<Rightarrow> None
                               | Some v \<Rightarrow> if truthy v then Some v else None) ys" for ys
    by (induction ys) (auto simp: readJson_def split: option.splits)
  then show ?thesis by (simp add: items_of_def)
qed

lemma items_of_Nil: "items_of [] = []"
  by (simp add: items_of_def newest50_def sortNewestFirst_def)

lemma response_items_list_ok: "response_items (list_ok kind items) = items"
  by (simp add: response_items_def list_ok_def)

lemma collect_readable:
  "root_ok st \<Longrightarrow> en_files st = Some a \<Longrightarrow> ht_files st = Some b \<Longrightarrow> pair_files st = Some c \<Longrightarrow>
   collect st kind =
     Inr ((if kind = ''audio'' \<or> kind = ''all''
           then map (Pair AUDIO_EN_DIR) (filter (\<lambda>f. endsWith (fname f) ''.json'') a)
                @ map (Pair AUDIO_HT_DIR) (filter (\<lambda>f. endsWith (fname f) ''.json'') b)
           else [])
          @ (if kind = ''pair'' \<or> kind = ''all''
             then map (Pair PAIRS_DIR) (filter (\<lambda>f. endsWith (fname f) ''.pair.json'') c)
             else []))"
  by (simp add: collect_def readdir_def)

lemma toLowerCase_all: "toLowerCase ''all'' = ''all''"
  by code_simp

lemma toLowerCase_audio: "toLowerCase ''audio'' = ''audio''"
  by code_simp

lemma toLowerCase_pair: "toLowerCase ''pair'' = ''pair''"
  by code_simp

section \<open>Reading the modification times\<close>

lemma statAll_ok_iff:
  "(\<exists>ys. statAll xs = Inr ys) \<longleftrightarrow> (\<forall>x\<in>set xs. mtimeMs (snd x) \<noteq> None)"
proof (induction xs)
  case Nil
  then show ?case by simp
next
  case (Cons x xs)
  show ?case
  proof (cases "mtimeMs (snd x)")
    case None
    then show ?thesis by simp
  next
    case (Some m)
    show ?thesis
    proof (cases "statAll xs")
      case (Inl e)
      with Cons have "\<not> (\<forall>x\<in>set xs. mtimeMs (snd x) \<noteq> None)" by simp
      with Some Inl show ?thesis by simp
    next
      case (Inr ys)
      with Cons have "\<forall>x\<in>set xs. mtimeMs (snd x) \<noteq> None" by simp
      with Some Inr show ?thesis by simp
    qed
  qed
qed

lemma statAll_entries: "statAll xs = Inr ys \<Longrightarrow> map fst ys = xs"
  by (induction xs arbitrary: ys) (auto split: option.splits sum.splits)

lemma statAll_times: "statAll xs = Inr ys \<Longrightarrow> \<forall>y\<in>set ys. mtimeMs (snd (fst y)) = Some (snd y)"
  by (induction xs arbitrary: ys) (auto split: option.splits sum.splits)

lemma statAll_length: "statAll xs = Inr ys \<Longrightarrow> length ys = length xs"
  using statAll_entries [of xs ys] by (metis length_map)

lemma statAll_append:
  "statAll (a @ p) = Inr zs \<longleftrightarrow> (\<exists>sa sp. statAll a = Inr sa \<and> statAll p = Inr sp \<and> zs = sa @ sp)"
proof (induction a arbitrary: zs)
  case Nil
  then show ?case by simp
next
  case (Cons x a)
  show ?case
  proof (cases "mtimeMs (snd x)")
    case None
    then show ?thesis by simp
  next
    case (Some m)
    show ?thesis
    proof (cases "statAll (a @ p)")
      case (Inl e)
      have "\<not> (statAll a = Inr sa \<and> statAll p = Inr sp)" for sa sp
        using Cons.IH [of "sa @ sp"] Inl by auto
      with Some Inl show ?thesis by (auto split: sum.splits)
    next
      case (Inr w)
      then obtain sa sp where w: "statAll a = Inr sa" "statAll p = Inr sp" "w = sa @ sp"
        using Cons.IH [of w] by auto
      with Some Inr show ?thesis by auto
    qed
  qed
qed

lemma statAll_filter:
  "statAll xs = Inr ys \<Longrightarrow> statAll (filter P xs) = Inr (filter (\<lambda>y. P (fst y)) ys)"
  by (induction xs arbitrary: ys) (auto split: option.splits sum.splits)

lemma statAll_fails:
  "statAll xs = Inl err \<Longrightarrow>
   \<exists>x\<in>set xs. mtimeMs (snd x) = None \<and> err = StatError (fst x) (fname (snd x))"
  by (induction xs) (auto split: option.splits sum.splits)

lemma list_selected_ok:
  "statAll xs = Inr ys \<Longrightarrow>
   status (list_selected kind xs) = 200 \<and> response_items (list_selected kind xs) = items_of ys"
  by (simp add: list_selected_def response_items_list_ok) (simp add: list_ok_def)

lemma list_selected_stat_fails:
  "statAll xs = Inl err \<Longrightarrow> list_selected kind xs = failed ''List failed'' err"
  by (simp add: list_selected_def)

lemma list_selected_Nil: "list_selected kind [] = list_ok kind []"
  by (simp add: list_selected_def items_of_Nil)

section \<open>Sorted, capped at fifty, tolerant of unreadable files\<close>

lemma collect_statable:
  assumes "root_ok st" "en_files st = Some a" "ht_files st = Some b" "pair_files st = Some c"
    and "\<forall>f\<in>set (a @ b @ c). mtimeMs f \<noteq> None"
  shows "\<exists>xs ys. collect st kind = Inr xs \<and> statAll xs = Inr ys"
proof -
  let ?xs = "(if kind = ''audio'' \<or> kind = ''all''
           then map (Pair AUDIO_EN_DIR) (filter (\<lambda>f. endsWith (fname f) ''.json'') a)
                @ map (Pair AUDIO_HT_DIR) (filter (\<lambda>f. endsWith (fname f) ''.json'') b)
           else [])
          @ (if kind = ''pair'' \<or> kind = ''all''
             then map (Pair PAIRS_DIR) (filter (\<lambda>f. endsWith (fname f) ''.pair.json'') c)
             else [])"
  have c: "collect st kind = Inr ?xs"
    using assms(1-4) by (rule collect_readable)
  have "\<forall>x\<in>set ?xs. mtimeMs (snd x) \<noteq> None"
    using assms(5) by auto
  then obtain ys where "statAll ?xs = Inr ys"
    using statAll_ok_iff [of ?xs] by blast
  with c show ?thesis by blast
qed

lemma selected_legacy_statable:
  assumes "\<forall>f\<in>set files. mtimeMs f \<noteq> None"
  shows "\<exists>ys. statAll (selected_legacy kind files) = Inr ys"
proof -
  have "\<forall>x\<in>set (selected_legacy kind files). mtimeMs (snd x) \<noteq> None"
    using assms by (auto simp: selected_legacy_def)
  then show ?thesis using statAll_ok_iff [of "selected_legacy kind files"] by blast
qed

text \<open>
  Claim C7. Whatever files were selected and stamped with their modification times
  (\<open>ys\<close>), the files read are in descending order of modification time, there are
  \<open>min 50 (length ys)\<close> of them, they and the files left out are together a rearrangement
  of \<open>ys\<close>, and no file left out is newer than a file read. The items are the contents of
  those files that parse (to a truthy value), in that order: a file whose content does not
  read or parse adds nothing and changes nothing else. When the directories can be read
  and every file in them has a modification time, the status is 200 whatever the files
  hold; with no file selected the status is 200 and the items are the empty list. The same
  holds for the listing of \<open>server.js\<close>.
\<close>

theorem listing_sorted_capped_tolerant:
  "sorted_wrt (\<lambda>x y. snd y \<le> snd x) (newest50 ys)
   \<and> length (newest50 ys) = min 50 (length ys)
   \<and> mset (newest50 ys @ drop 50 (sortNewestFirst ys)) = mset ys
   \<and> (\<forall>x\<in>set (newest50 ys). \<forall>y\<in>set (drop 50 (sortNewestFirst ys)). snd y \<le> snd x)
   \<and> items_of ys =
        List.map_filter (\<lambda>x. case json (snd (fst x)) of None \<Rightarrow> None
                               | Some v \<Rightarrow> if truthy v then Some v else None) (newest50 ys)
   \<and> (collect st (toLowerCase (orElse (kindParam req) ''all'')) = Inr xs \<and> statAll xs = Inr ys \<longrightarrow>
        status (list_handler st req) = 200
        \<and> response_items (list_handler st req) = items_of ys
        \<and> map fst ys = xs
        \<and> (\<forall>y\<in>set ys. mtimeMs (snd (fst y)) = Some (snd y)))
   \<and> (root_ok st \<and> en_files st = Some a \<and> ht_files st = Some b \<and> pair_files st = Some c
        \<and> (\<forall>f\<in>set (a @ b @ c). mtimeMs f \<noteq> None) \<longrightarrow>
        status (list_handler st req) = 200)
   \<and> (collect st (toLowerCase (orElse (kindParam req) ''all'')) = Inr [] \<longrightarrow>
        status (list_handler st req) = 200 \<and> response_items (list_handler st req) = [])
   \<and> (root_ok st \<and> en_files st = Some [] \<and> ht_files st = Some [] \<and> pair_files st = Some [] \<longrightarrow>
        status (list_handler st req) = 200 \<and> response_items (list_handler st req) = [])
   \<and> (statAll (selected_legacy (toLowerCase (orElse (kindParam req) ''all'')) files) = Inr ys \<longrightarrow>
        status (list_handler_legacy (Some files) req) = 200
        \<and> response_items (list_handler_legacy (Some files) req) = items_of ys)
   \<and> ((\<forall>f\<in>set files. mtimeMs f \<noteq> None) \<longrightarrow> status (list_handler_legacy (Some files) req) = 200)
   \<and> status (list_handler_legacy (Some []) req) = 200
   \<and> response_items (list_handler_legacy (Some []) req) = []"
proof -
  let ?k = "toLowerCase (orElse (kindParam req) ''all'')"
  have ok: "status (list_ok k []) = 200" for k
    by (simp add: list_ok_def)
  have c1: "collect st ?k = Inr xs \<and> statAll xs = Inr ys \<longrightarrow>
        status (list_handler st req) = 200
        \<and> response_items (list_handler st req) = items_of ys
        \<and> map fst ys = xs
        \<and> (\<forall>y\<in>set ys. mtimeMs (snd (fst y)) = Some (snd y))"
    using list_selected_ok [of xs ys ?k] statAll_entries [of xs ys] statAll_times [of xs ys]
    by (simp add: list_handler_def Let_def)
  have c2: "root_ok st \<and> en_files st = Some a \<and> ht_files st = Some b \<and> pair_files st = Some c
        \<and> (\<forall>f\<in>set (a @ b @ c). mtimeMs f \<noteq> None) \<longrightarrow>
        status (list_handler st req) = 200"
  proof
    assume h: "root_ok st \<and> en_files st = Some a \<and> ht_files st = Some b \<and> pair_files st = Some c
        \<and> (\<forall>f\<in>set (a @ b @ c). mtimeMs f \<noteq> None)"
    then obtain zs sz where z: "collect st ?k = Inr zs" "statAll zs = Inr sz"
      using collect_statable [of st a b c ?k] by blast
    then show "status (list_handler st req) = 200"
      using list_selected_ok [of zs sz ?k] by (simp add: list_handler_def Let_def)
  qed
  have c3: "collect st ?k = Inr [] \<longrightarrow>
        status (list_handler st req) = 200 \<and> response_items (list_handler st req) = []"
    by (simp add: list_handler_def Let_def list_selected_Nil response_items_list_ok ok)
  have c4: "root_ok st \<and> en_files st = Some [] \<and> ht_files st = Some [] \<and> pair_files st = Some [] \<longrightarrow>
        status (list_handler st req) = 200 \<and> response_items (list_handler st req) = []"
    by (simp add: list_handler_def Let_def collect_readable list_selected_Nil
          response_items_list_ok ok)
  have c5: "statAll (selected_legacy ?k files) = Inr ys \<longrightarrow>
        status (list_handler_legacy (Some files) req) = 200
        \<and> response_items (list_handler_legacy (Some files) req) = items_of ys"
    using list_selected_ok [of "selected_legacy ?k files" ys ?k]
    by (simp add: list_handler_legacy_def Let_def)
  have c6: "(\<forall>f\<in>set files. mtimeMs f \<noteq> None) \<longrightarrow> status (list_handler_legacy (Some files) req) = 200"
  proof
    assume "\<forall>f\<in>set files. mtimeMs f \<noteq> None"
    then obtain sz where "statAll (selected_legacy ?k files) = Inr sz"
      using selected_legacy_statable [of files ?k] by blast
    then show "status (list_handler_legacy (Some files) req) = 200"
      using list_selected_ok [of "selected_legacy ?k files" sz ?k]
      by (simp add: list_handler_legacy_def Let_def)
  qed
  have c7: "status (list_handler_legacy (Some []) req) = 200
            \<and> response_items (list_handler_legacy (Some []) req) = []"
    by (simp add: list_handler_legacy_def Let_def selected_legacy_def list_selected_Nil
          response_items_list_ok ok)
  show ?thesis
    using newest50_sorted [of ys] newest50_length [of ys] newest50_rest [of ys]
      items_of_parsed [of ys] c1 c2 c3 c4 c5 c6 c7
    by (intro conjI) blast+
qed

theorem listing_sorted_capped_tolerant_witness:
  "collect store_small (toLowerCase (orElse (kindParam (req_list None)) ''all''))
     = Inr [(AUDIO_EN_DIR, \<lparr>fname = ''a.json'', mtimeMs = Some 10, json = Some (JObj [(''id'', JStr ''a'')])\<rparr>),
            (AUDIO_EN_DIR, \<lparr>fname = ''b.json'', mtimeMs = Some 30, json = None\<rparr>),
            (AUDIO_HT_DIR, \<lparr>fname = ''c.json'', mtimeMs = Some 20, json = Some (JObj [(''id'', JStr ''c'')])\<rparr>),
            (PAIRS_DIR, \<lparr>fname = ''p.pair.json'', mtimeMs = Some 40,
                         json = Some (JObj [(''sampleId'', JStr ''p'')])\<rparr>)]
   \<and> status (list_handler store_small (req_list None)) = 200
   \<and> response_items (list_handler store_small (req_list None))
       = [JObj [(''sampleId'', JStr ''p'')], JObj [(''id'', JStr ''c'')], JObj [(''id'', JStr ''a'')]]
   \<and> status (list_handler_legacy (Some files_small) (req_list None)) = 200
   \<and> response_items (list_handler_legacy (Some files_small) (req_list None))
       = [JObj [(''sampleId'', JStr ''p'')], JObj [(''id'', JStr ''c'')], JObj [(''id'', JStr ''a'')]]"
proof -
  let ?a = "(AUDIO_EN_DIR, \<lparr>fname = ''a.json'', mtimeMs = Some 10, json = Some (JObj [(''id'', JStr ''a'')])\<rparr>)"
  let ?b = "(AUDIO_EN_DIR, \<lparr>fname = ''b.json'', mtimeMs = Some 30, json = None\<rparr>)"
  let ?c = "(AUDIO_HT_DIR, \<lparr>fname = ''c.json'', mtimeMs = Some 20, json = Some (JObj [(''id'', JStr ''c'')])\<rparr>)"
  let ?p = "(PAIRS_DIR, \<lparr>fname = ''p.pair.json'', mtimeMs = Some 40,
                         json = Some (JObj [(''sampleId'', JStr ''p'')])\<rparr>)"
  let ?xs = "[?a, ?b, ?c, ?p]"
  let ?ys = "[(?a, 10), (?b, 30), (?c, 20), (?p, 40 :: real)]"
  let ?la = "(DATA_DIR, \<lparr>fname = ''a.json'', mtimeMs = Some 10, json = Some (JObj [(''id'', JStr ''a'')])\<rparr>)"
  let ?lb = "(DATA_DIR, \<lparr>fname = ''b.json'', mtimeMs = Some 30, json = None\<rparr>)"
  let ?lc = "(DATA_DIR, \<lparr>fname = ''c.json'', mtimeMs = Some 20, json = Some (JObj [(''id'', JStr ''c'')])\<rparr>)"
  let ?lp = "(DATA_DIR, \<lparr>fname = ''p.pair.json'', mtimeMs = Some 40,
                         json = Some (JObj [(''sampleId'', JStr ''p'')])\<rparr>)"
  let ?ls = "[(?la, 10), (?lb, 30), (?lc, 20), (?lp, 40 :: real)]"
  have h: "collect store_small (toLowerCase (orElse (kindParam (req_list None)) ''all'')) = Inr ?xs"
    by code_simp
  have s: "statAll ?xs = Inr ?ys" by simp
  have i: "items_of ?ys
       = [JObj [(''sampleId'', JStr ''p'')], JObj [(''id'', JStr ''c'')], JObj [(''id'', JStr ''a'')]]"
    by code_simp
  have j: "statAll (selected_legacy (toLowerCase (orElse (kindParam (req_list None)) ''all'')) files_small)
           = Inr ?ls"
    by code_simp
  have k: "items_of ?ls
       = [JObj [(''sampleId'', JStr ''p'')], JObj [(''id'', JStr ''c'')], JObj [(''id'', JStr ''a'')]]"
    by code_simp
  have n: "status (list_handler store_small (req_list None)) = 200
           \<and> response_items (list_handler store_small (req_list None)) = items_of ?ys"
    using listing_sorted_capped_tolerant [of ?ys store_small "req_list None" ?xs "[]" "[]" "[]" "[]"] h s
    by (elim conjE) simp
  have l: "status (list_handler_legacy (Some files_small) (req_list None)) = 200
           \<and> response_items (list_handler_legacy (Some files_small) (req_list None)) = items_of ?ls"
    using listing_sorted_capped_tolerant [of ?ls store_small "req_list None" ?xs "[]" "[]" "[]" files_small] j
    by (elim conjE) simp
  show ?thesis using h n l i k by simp
qed

text \<open>
  An entry that \<open>statSync\<close> throws on is not a file with unreadable content: it ends the
  listing with status 500 in both servers, for every kind that selects it.
\<close>

lemma listing_stat_failure_aborts:
  "list_handler store_dangling (req_list (Some ''all''))
     = failed ''List failed'' (StatError AUDIO_EN_DIR ''x.json'')
   \<and> list_handler store_dangling (req_list (Some ''audio''))
     = failed ''List failed'' (StatError AUDIO_EN_DIR ''x.json'')
   \<and> response_items (list_handler store_dangling (req_list (Some ''pair'')))
     = [JObj [(''sampleId'', JStr ''p'')]]
   \<and> list_handler_legacy (Some files_dangling) (req_list (Some ''all''))
     = failed ''List failed'' (StatError DATA_DIR ''x.json'')
   \<and> response_items (list_handler_legacy (Some files_dangling) (req_list (Some ''pair'')))
     = [JObj [(''sampleId'', JStr ''p'')]]"
  by code_simp

section \<open>The kind selector\<close>

lemma endsWith_append: "endsWith (a @ p) p"
  by (simp add: endsWith_suffix suffix_def)

lemma endsWith_pair_json: "endsWith s ''.pair.json'' \<Longrightarrow> endsWith s ''.json''"
proof -
  assume "endsWith s ''.pair.json''"
  then obtain zs where "s = zs @ ''.pair.json''"
    by (auto simp: endsWith_suffix suffix_def)
  then have "s = (zs @ ''.pair'') @ ''.json''" by simp
  then show ?thesis using endsWith_append [of "zs @ ''.pair''" "''.json''"] by simp
qed

lemma collect_audio_dirs:
  "collect st ''audio'' = Inr xs \<Longrightarrow> x \<in> set xs \<Longrightarrow> fst x = AUDIO_EN_DIR \<or> fst x = AUDIO_HT_DIR"
  by (auto simp: collect_def readdir_def split: if_splits option.splits)

lemma collect_pair_dir:
  "collect st ''pair'' = Inr xs \<Longrightarrow> x \<in> set xs \<Longrightarrow> fst x = PAIRS_DIR"
  by (auto simp: collect_def readdir_def split: if_splits option.splits)

lemma collect_all_union:
  "collect st ''all'' = Inr zs \<Longrightarrow>
   \<exists>a p. collect st ''audio'' = Inr a \<and> collect st ''pair'' = Inr p \<and> zs = a @ p"
  by (auto simp: collect_def readdir_def split: if_splits option.splits)

lemma newest50_append_short:
  "length (a @ p) \<le> 50 \<Longrightarrow> set (newest50 (a @ p)) = set (newest50 a) \<union> set (newest50 p)"
  by (simp add: newest50_short)

lemma items_of_set: "set (items_of xs) = {v \<in> readJson ` set (newest50 xs). truthy v}"
  by (auto simp: items_of_def)

lemma items_of_append_short:
  "length (a @ p) \<le> 50 \<Longrightarrow> set (items_of (a @ p)) = set (items_of a) \<union> set (items_of p)"
  using newest50_append_short [of a p] by (auto simp: items_of_set)

lemma selected_legacy_union:
  "set (selected_legacy ''all'' files)
     = set (selected_legacy ''audio'' files) \<union> set (selected_legacy ''pair'' files)"
  using endsWith_pair_json by (auto simp: selected_legacy_def)

lemma selected_legacy_audio_alt:
  "selected_legacy ''audio'' files
     = filter (\<lambda>x. \<not> endsWith (fname (snd x)) ''.pair.json'') (selected_legacy ''all'' files)"
  by (induction files) (auto simp: selected_legacy_def)

lemma selected_legacy_pair_alt:
  "selected_legacy ''pair'' files
     = filter (\<lambda>x. endsWith (fname (snd x)) ''.pair.json'') (selected_legacy ''all'' files)"
  using endsWith_pair_json by (induction files) (auto simp: selected_legacy_def)

lemma list_handler_kind:
  "toLowerCase k = k \<Longrightarrow> k \<noteq> [] \<Longrightarrow> collect st k = Inr xs \<Longrightarrow>
   list_handler st (req_list (Some k)) = list_selected k xs"
  by (simp add: list_handler_def req_list_def orElse_def Let_def)

lemma list_handler_legacy_kind:
  "toLowerCase k = k \<Longrightarrow> k \<noteq> [] \<Longrightarrow>
   list_handler_legacy (Some files) (req_list (Some k)) = list_selected k (selected_legacy k files)"
  by (simp add: list_handler_legacy_def req_list_def orElse_def Let_def)

lemma statAll_member: "statAll xs = Inr ys \<Longrightarrow> y \<in> set ys \<Longrightarrow> fst y \<in> set xs"
  using statAll_entries [of xs ys] by force

lemma listing_audio_only:
  assumes "collect st ''audio'' = Inr xs" and "statAll xs = Inr sx"
  shows "response_items (list_handler st (req_list (Some ''audio''))) = items_of sx
         \<and> (\<forall>x\<in>set (newest50 sx). fst (fst x) = AUDIO_EN_DIR \<or> fst (fst x) = AUDIO_HT_DIR)"
proof -
  have "list_handler st (req_list (Some ''audio'')) = list_selected ''audio'' xs"
    using list_handler_kind [of "''audio''" st xs] assms(1) by (simp add: toLowerCase_audio)
  then have r: "response_items (list_handler st (req_list (Some ''audio''))) = items_of sx"
    using list_selected_ok [OF assms(2), of "''audio''"] by simp
  have "fst (fst x) = AUDIO_EN_DIR \<or> fst (fst x) = AUDIO_HT_DIR" if "x \<in> set (newest50 sx)" for x
  proof -
    from that have "x \<in> set sx" using newest50_subset [of sx] by blast
    then have "fst x \<in> set xs" using statAll_member [OF assms(2)] by blast
    then show ?thesis using collect_audio_dirs [OF assms(1)] by blast
  qed
  with r show ?thesis by blast
qed

lemma listing_pair_only:
  assumes "collect st ''pair'' = Inr ys" and "statAll ys = Inr sy"
  shows "response_items (list_handler st (req_list (Some ''pair''))) = items_of sy
         \<and> (\<forall>x\<in>set (newest50 sy). fst (fst x) = PAIRS_DIR)"
proof -
  have "list_handler st (req_list (Some ''pair'')) = list_selected ''pair'' ys"
    using list_handler_kind [of "''pair''" st ys] assms(1) by (simp add: toLowerCase_pair)
  then have r: "response_items (list_handler st (req_list (Some ''pair''))) = items_of sy"
    using list_selected_ok [OF assms(2), of "''pair''"] by simp
  have "fst (fst x) = PAIRS_DIR" if "x \<in> set (newest50 sy)" for x
  proof -
    from that have "x \<in> set sy" using newest50_subset [of sy] by blast
    then have "fst x \<in> set ys" using statAll_member [OF assms(2)] by blast
    then show ?thesis using collect_pair_dir [OF assms(1)] by blast
  qed
  with r show ?thesis by blast
qed

lemma listing_all_union:
  assumes "collect st ''all'' = Inr zs" and "statAll zs = Inr sz"
  shows "response_items (list_handler st (req_list (Some ''all''))) = items_of sz
    \<and> (\<exists>a p sa sp. collect st ''audio'' = Inr a \<and> collect st ''pair'' = Inr p \<and> zs = a @ p
          \<and> statAll a = Inr sa \<and> statAll p = Inr sp \<and> sz = sa @ sp
          \<and> response_items (list_handler st (req_list (Some ''audio''))) = items_of sa
          \<and> response_items (list_handler st (req_list (Some ''pair''))) = items_of sp
          \<and> set (newest50 sz) \<subseteq> set sa \<union> set sp
          \<and> (length zs \<le> 50 \<longrightarrow>
               set (newest50 sz) = set (newest50 sa) \<union> set (newest50 sp)
               \<and> set (response_items (list_handler st (req_list (Some ''all''))))
                   = set (response_items (list_handler st (req_list (Some ''audio''))))
                     \<union> set (response_items (list_handler st (req_list (Some ''pair''))))))"
proof -
  have "list_handler st (req_list (Some ''all'')) = list_selected ''all'' zs"
    using list_handler_kind [of "''all''" st zs] assms(1) by (simp add: toLowerCase_all)
  then have r: "response_items (list_handler st (req_list (Some ''all''))) = items_of sz"
    using list_selected_ok [OF assms(2), of "''all''"] by simp
  obtain a p where ap: "collect st ''audio'' = Inr a" "collect st ''pair'' = Inr p" "zs = a @ p"
    using collect_all_union [OF assms(1)] by blast
  obtain sa sp where s: "statAll a = Inr sa" "statAll p = Inr sp" "sz = sa @ sp"
    using assms(2) ap(3) statAll_append [of a p sz] by blast
  have ra: "response_items (list_handler st (req_list (Some ''audio''))) = items_of sa"
    using listing_audio_only [OF ap(1) s(1)] by blast
  have rp: "response_items (list_handler st (req_list (Some ''pair''))) = items_of sp"
    using listing_pair_only [OF ap(2) s(2)] by blast
  have sub: "set (newest50 sz) \<subseteq> set sa \<union> set sp"
    using newest50_subset [of sz] s(3) by simp
  have len: "length sz = length zs"
    using statAll_length [OF assms(2)] .
  have short: "length zs \<le> 50 \<longrightarrow>
               set (newest50 sz) = set (newest50 sa) \<union> set (newest50 sp)
               \<and> set (response_items (list_handler st (req_list (Some ''all''))))
                   = set (response_items (list_handler st (req_list (Some ''audio''))))
                     \<union> set (response_items (list_handler st (req_list (Some ''pair''))))"
    using newest50_append_short [of sa sp] items_of_append_short [of sa sp] s(3) len r ra rp
    by simp
  show ?thesis using r ap s ra rp sub short by blast
qed

lemma listing_legacy_kinds:
  assumes "statAll (selected_legacy ''all'' files) = Inr sz"
  shows "\<exists>sa sp. statAll (selected_legacy ''audio'' files) = Inr sa
           \<and> statAll (selected_legacy ''pair'' files) = Inr sp
           \<and> set sz = set sa \<union> set sp \<and> length sa \<le> length sz \<and> length sp \<le> length sz"
proof -
  let ?P = "\<lambda>x. endsWith (fname (snd x)) ''.pair.json''"
  let ?sa = "filter (\<lambda>y. \<not> ?P (fst y)) sz"
  let ?sp = "filter (\<lambda>y. ?P (fst y)) sz"
  have a: "statAll (selected_legacy ''audio'' files) = Inr ?sa"
    unfolding selected_legacy_audio_alt using statAll_filter [OF assms] by blast
  have p: "statAll (selected_legacy ''pair'' files) = Inr ?sp"
    unfolding selected_legacy_pair_alt using statAll_filter [OF assms] by blast
  have u: "set sz = set ?sa \<union> set ?sp" by auto
  have la: "length ?sa \<le> length sz" by simp
  have lp: "length ?sp \<le> length sz" by simp
  show ?thesis using a p u la lp by blast
qed

text \<open>
  Claim C6, as amended. Whenever a listing is answered (no directory read and no
  \<open>statSync\<close> throws): in the partitioned server a listing with \<open>kind=audio\<close> reads files of
  the two audio directories only and a listing with \<open>kind=pair\<close> files of the pairs
  directory only; \<open>kind=all\<close> selects the files of the first followed by the files of the
  second, returns nothing from elsewhere, and returns the union of the two listings when at
  most fifty files are selected. In \<open>server.js\<close> the same holds with the kinds told apart
  by the file name: \<open>.pair.json\<close> for a pair, any other \<open>.json\<close> for an audio record.
\<close>

theorem listing_kind_filter:
  "(collect st ''audio'' = Inr xs \<and> statAll xs = Inr sx \<longrightarrow>
      response_items (list_handler st (req_list (Some ''audio''))) = items_of sx
      \<and> (\<forall>x\<in>set (newest50 sx). fst (fst x) = AUDIO_EN_DIR \<or> fst (fst x) = AUDIO_HT_DIR))
   \<and> (collect st ''pair'' = Inr ys \<and> statAll ys = Inr sy \<longrightarrow>
      response_items (list_handler st (req_list (Some ''pair''))) = items_of sy
      \<and> (\<forall>x\<in>set (newest50 sy). fst (fst x) = PAIRS_DIR))
   \<and> (collect st ''all'' = Inr zs \<and> statAll zs = Inr sz \<longrightarrow>
      response_items (list_handler st (req_list (Some ''all''))) = items_of sz
      \<and> (\<exists>a p sa sp. collect st ''audio'' = Inr a \<and> collect st ''pair'' = Inr p \<and> zs = a @ p
            \<and> statAll a = Inr sa \<and> statAll p = Inr sp \<and> sz = sa @ sp
            \<and> response_items (list_handler st (req_list (Some ''audio''))) = items_of sa
            \<and> response_items (list_handler st (req_list (Some ''pair''))) = items_of sp
            \<and> set (newest50 sz) \<subseteq> set sa \<union> set sp
            \<and> (length zs \<le> 50 \<longrightarrow>
                 set (newest50 sz) = set (newest50 sa) \<union> set (newest50 sp)
                 \<and> set (response_items (list_handler st (req_list (Some ''all''))))
                     = set (response_items (list_handler st (req_list (Some ''audio''))))
                       \<union> set (response_items (list_handler st (req_list (Some ''pair'')))))))
   \<and> (statAll (selected_legacy ''audio'' files) = Inr la \<longrightarrow>
      response_items (list_handler_legacy (Some files) (req_list (Some ''audio''))) = items_of la
      \<and> (\<forall>x\<in>set (newest50 la).
            endsWith (fname (snd (fst x))) ''.json'' \<and> \<not> endsWith (fname (snd (fst x))) ''.pair.json''))
   \<and> (statAll (selected_legacy ''pair'' files) = Inr lp \<longrightarrow>
      response_items (list_handler_legacy (Some files) (req_list (Some ''pair''))) = items_of lp
      \<and> (\<forall>x\<in>set (newest50 lp). endsWith (fname (snd (fst x))) ''.pair.json''))
   \<and> (statAll (selected_legacy ''all'' files) = Inr lz \<longrightarrow>
      response_items (list_handler_legacy (Some files) (req_list (Some ''all''))) = items_of lz
      \<and> (\<exists>sa sp. statAll (selected_legacy ''audio'' files) = Inr sa
            \<and> statAll (selected_legacy ''pair'' files) = Inr sp
            \<and> set (newest50 lz) \<subseteq> set sa \<union> set sp
            \<and> (length lz \<le> 50 \<longrightarrow>
                 set (newest50 lz) = set (newest50 sa) \<union> set (newest50 sp)
                 \<and> set (response_items (list_handler_legacy (Some files) (req_list (Some ''all''))))
                     = set (response_items (list_handler_legacy (Some files) (req_list (Some ''audio''))))
                       \<union> set (response_items (list_handler_legacy (Some files) (req_list (Some ''pair'')))))))"
proof -
  have leg: "statAll (selected_legacy k files) = Inr l \<Longrightarrow> toLowerCase k = k \<Longrightarrow> k \<noteq> [] \<Longrightarrow>
             response_items (list_handler_legacy (Some files) (req_list (Some k))) = items_of l" for k l
    using list_selected_ok [of "selected_legacy k files" l k]
    by (simp add: list_handler_legacy_kind)
  have p1: "collect st ''audio'' = Inr xs \<and> statAll xs = Inr sx \<longrightarrow>
      response_items (list_handler st (req_list (Some ''audio''))) = items_of sx
      \<and> (\<forall>x\<in>set (newest50 sx). fst (fst x) = AUDIO_EN_DIR \<or> fst (fst x) = AUDIO_HT_DIR)"
    using listing_audio_only [of st xs sx] by blast
  have p2: "collect st ''pair'' = Inr ys \<and> statAll ys = Inr sy \<longrightarrow>
      response_items (list_handler st (req_list (Some ''pair''))) = items_of sy
      \<and> (\<forall>x\<in>set (newest50 sy). fst (fst x) = PAIRS_DIR)"
    using listing_pair_only [of st ys sy] by blast
  have p3: "collect st ''all'' = Inr zs \<and> statAll zs = Inr sz \<longrightarrow>
      response_items (list_handler st (req_list (Some ''all''))) = items_of sz
      \<and> (\<exists>a p sa sp. collect st ''audio'' = Inr a \<and> collect st ''pair'' = Inr p \<and> zs = a @ p
            \<and> statAll a = Inr sa \<and> statAll p = Inr sp \<and> sz = sa @ sp
            \<and> response_items (list_handler st (req_list (Some ''audio''))) = items_of sa
            \<and> response_items (list_handler st (req_list (Some ''pair''))) = items_of sp
            \<and> set (newest50 sz) \<subseteq> set sa \<union> set sp
            \<and> (length zs \<le> 50 \<longrightarrow>
                 set (newest50 sz) = set (newest50 sa) \<union> set (newest50 sp)
                 \<and> set (response_items (list_handler st (req_list (Some ''all''))))
                     = set (response_items (list_handler st (req_list (Some ''audio''))))
                       \<union> set (response_items (list_handler st (req_list (Some ''pair''))))))"
    using listing_all_union [of st zs sz] by blast
  have p4: "statAll (selected_legacy ''audio'' files) = Inr la \<longrightarrow>
      response_items (list_handler_legacy (Some files) (req_list (Some ''audio''))) = items_of la
      \<and> (\<forall>x\<in>set (newest50 la).
            endsWith (fname (snd (fst x))) ''.json'' \<and> \<not> endsWith (fname (snd (fst x))) ''.pair.json'')"
  proof
    assume h: "statAll (selected_legacy ''audio'' files) = Inr la"
    have "endsWith (fname (snd (fst x))) ''.json'' \<and> \<not> endsWith (fname (snd (fst x))) ''.pair.json''"
      if "x \<in> set (newest50 la)" for x
    proof -
      from that have "x \<in> set la" using newest50_subset [of la] by blast
      then have "fst x \<in> set (selected_legacy ''audio'' files)" using statAll_member [OF h] by blast
      then show ?thesis by (auto simp: selected_legacy_def)
    qed
    then show "response_items (list_handler_legacy (Some files) (req_list (Some ''audio''))) = items_of la
      \<and> (\<forall>x\<in>set (newest50 la).
            endsWith (fname (snd (fst x))) ''.json'' \<and> \<not> endsWith (fname (snd (fst x))) ''.pair.json'')"
      using leg [OF h] by (simp add: toLowerCase_audio)
  qed
  have p5: "statAll (selected_legacy ''pair'' files) = Inr lp \<longrightarrow>
      response_items (list_handler_legacy (Some files) (req_list (Some ''pair''))) = items_of lp
      \<and> (\<forall>x\<in>set (newest50 lp). endsWith (fname (snd (fst x))) ''.pair.json'')"
  proof
    assume h: "statAll (selected_legacy ''pair'' files) = Inr lp"
    have "endsWith (fname (snd (fst x))) ''.pair.json''" if "x \<in> set (newest50 lp)" for x
    proof -
      from that have "x \<in> set lp" using newest50_subset [of lp] by blast
      then have "fst x \<in> set (selected_legacy ''pair'' files)" using statAll_member [OF h] by blast
      then show ?thesis by (auto simp: selected_legacy_def)
    qed
    then show "response_items (list_handler_legacy (Some files) (req_list (Some ''pair''))) = items_of lp
      \<and> (\<forall>x\<in>set (newest50 lp). endsWith (fname (snd (fst x))) ''.pair.json'')"
      using leg [OF h] by (simp add: toLowerCase_pair)
  qed
  have p6: "statAll (selected_legacy ''all'' files) = Inr lz \<longrightarrow>
      response_items (list_handler_legacy (Some files) (req_list (Some ''all''))) = items_of lz
      \<and> (\<exists>sa sp. statAll (selected_legacy ''audio'' files) = Inr sa
            \<and> statAll (selected_legacy ''pair'' files) = Inr sp
            \<and> set (newest50 lz) \<subseteq> set sa \<union> set sp
            \<and> (length lz \<le> 50 \<longrightarrow>
                 set (newest50 lz) = set (newest50 sa) \<union> set (newest50 sp)
                 \<and> set (response_items (list_handler_legacy (Some files) (req_list (Some ''all''))))
                     = set (response_items (list_handler_legacy (Some files) (req_list (Some ''audio''))))
                       \<union> set (response_items (list_handler_legacy (Some files) (req_list (Some ''pair''))))))"
  proof
    assume h: "statAll (selected_legacy ''all'' files) = Inr lz"
    obtain sa sp where s: "statAll (selected_legacy ''audio'' files) = Inr sa"
      "statAll (selected_legacy ''pair'' files) = Inr sp"
      "set lz = set sa \<union> set sp" "length sa \<le> length lz" "length sp \<le> length lz"
      using listing_legacy_kinds [OF h] by blast
    have r: "response_items (list_handler_legacy (Some files) (req_list (Some ''all''))) = items_of lz"
      using leg [OF h] by (simp add: toLowerCase_all)
    have ra: "response_items (list_handler_legacy (Some files) (req_list (Some ''audio''))) = items_of sa"
      using leg [OF s(1)] by (simp add: toLowerCase_audio)
    have rp: "response_items (list_handler_legacy (Some files) (req_list (Some ''pair''))) = items_of sp"
      using leg [OF s(2)] by (simp add: toLowerCase_pair)
    have sub: "set (newest50 lz) \<subseteq> set sa \<union> set sp"
      using newest50_subset [of lz] s(3) by simp
    have short: "length lz \<le> 50 \<longrightarrow>
                 set (newest50 lz) = set (newest50 sa) \<union> set (newest50 sp)
                 \<and> set (response_items (list_handler_legacy (Some files) (req_list (Some ''all''))))
                     = set (response_items (list_handler_legacy (Some files) (req_list (Some ''audio''))))
                       \<union> set (response_items (list_handler_legacy (Some files) (req_list (Some ''pair''))))"
    proof
      assume le: "length lz \<le> 50"
      then have n: "set (newest50 lz) = set lz" "set (newest50 sa) = set sa" "set (newest50 sp) = set sp"
        using s(4,5) by (simp_all add: newest50_short)
      then show "set (newest50 lz) = set (newest50 sa) \<union> set (newest50 sp)
                 \<and> set (response_items (list_handler_legacy (Some files) (req_list (Some ''all''))))
                     = set (response_items (list_handler_legacy (Some files) (req_list (Some ''audio''))))
                       \<union> set (response_items (list_handler_legacy (Some files) (req_list (Some ''pair''))))"
        using s(3) r ra rp by (auto simp: items_of_set)
    qed
    show "response_items (list_handler_legacy (Some files) (req_list (Some ''all''))) = items_of lz
      \<and> (\<exists>sa sp. statAll (selected_legacy ''audio'' files) = Inr sa
            \<and> statAll (selected_legacy ''pair'' files) = Inr sp
            \<and> set (newest50 lz) \<subseteq> set sa \<union> set sp
            \<and> (length lz \<le> 50 \<longrightarrow>
                 set (newest50 lz) = set (newest50 sa) \<union> set (newest50 sp)
                 \<and> set (response_items (list_handler_legacy (Some files) (req_list (Some ''all''))))
                     = set (response_items (list_handler_legacy (Some files) (req_list (Some ''audio''))))
                       \<union> set (response_items (list_handler_legacy (Some files) (req_list (Some ''pair''))))))"
      using r s(1,2) sub short by blast
  qed
  show ?thesis
    apply (intro conjI)
         apply (rule p1)
        apply (rule p2)
       apply (rule p3)
      apply (rule p4)
     apply (rule p5)
    apply (rule p6)
    done
qed

theorem listing_kind_filter_witness:
  "collect store_small ''all''
     = Inr [(AUDIO_EN_DIR, \<lparr>fname = ''a.json'', mtimeMs = Some 10, json = Some (JObj [(''id'', JStr ''a'')])\<rparr>),
            (AUDIO_EN_DIR, \<lparr>fname = ''b.json'', mtimeMs = Some 30, json = None\<rparr>),
            (AUDIO_HT_DIR, \<lparr>fname = ''c.json'', mtimeMs = Some 20, json = Some (JObj [(''id'', JStr ''c'')])\<rparr>),
            (PAIRS_DIR, \<lparr>fname = ''p.pair.json'', mtimeMs = Some 40,
                         json = Some (JObj [(''sampleId'', JStr ''p'')])\<rparr>)]
   \<and> response_items (list_handler store_small (req_list (Some ''audio'')))
       = [JObj [(''id'', JStr ''c'')], JObj [(''id'', JStr ''a'')]]
   \<and> response_items (list_handler store_small (req_list (Some ''pair'')))
       = [JObj [(''sampleId'', JStr ''p'')]]
   \<and> set (response_items (list_handler store_small (req_list (Some ''all''))))
       = set (response_items (list_handler store_small (req_list (Some ''audio''))))
         \<union> set (response_items (list_handler store_small (req_list (Some ''pair''))))
   \<and> response_items (list_handler_legacy (Some files_small) (req_list (Some ''pair'')))
       = [JObj [(''sampleId'', JStr ''p'')]]
   \<and> set (response_items (list_handler_legacy (Some files_small) (req_list (Some ''all''))))
       = set (response_items (list_handler_legacy (Some files_small) (req_list (Some ''audio''))))
         \<union> set (response_items (list_handler_legacy (Some files_small) (req_list (Some ''pair''))))"
proof -
  let ?a = "(AUDIO_EN_DIR, \<lparr>fname = ''a.json'', mtimeMs = Some 10, json = Some (JObj [(''id'', JStr ''a'')])\<rparr>)"
  let ?b = "(AUDIO_EN_DIR, \<lparr>fname = ''b.json'', mtimeMs = Some 30, json = None\<rparr>)"
  let ?c = "(AUDIO_HT_DIR, \<lparr>fname = ''c.json'', mtimeMs = Some 20, json = Some (JObj [(''id'', JStr ''c'')])\<rparr>)"
  let ?p = "(PAIRS_DIR, \<lparr>fname = ''p.pair.json'', mtimeMs = Some 40,
                         json = Some (JObj [(''sampleId'', JStr ''p'')])\<rparr>)"
  let ?xs = "[?a, ?b, ?c]"
  let ?sx = "[(?a, 10), (?b, 30), (?c, 20 :: real)]"
  let ?ys = "[?p]"
  let ?sy = "[(?p, 40 :: real)]"
  let ?la = "(DATA_DIR, \<lparr>fname = ''a.json'', mtimeMs = Some 10, json = Some (JObj [(''id'', JStr ''a'')])\<rparr>)"
  let ?lb = "(DATA_DIR, \<lparr>fname = ''b.json'', mtimeMs = Some 30, json = None\<rparr>)"
  let ?lc = "(DATA_DIR, \<lparr>fname = ''c.json'', mtimeMs = Some 20, json = Some (JObj [(''id'', JStr ''c'')])\<rparr>)"
  let ?lp = "(DATA_DIR, \<lparr>fname = ''p.pair.json'', mtimeMs = Some 40,
                         json = Some (JObj [(''sampleId'', JStr ''p'')])\<rparr>)"
  let ?lsa = "[(?la, 10), (?lb, 30), (?lc, 20 :: real)]"
  let ?lsp = "[(?lp, 40 :: real)]"
  let ?lsz = "[(?la, 10), (?lb, 30), (?lc, 20), (?lp, 40 :: real)]"
  have ha: "collect store_small ''audio'' = Inr ?xs" by code_simp
  have hp: "collect store_small ''pair'' = Inr ?ys" by code_simp
  have hz: "collect store_small ''all'' = Inr (?xs @ ?ys)" by code_simp
  have sa: "statAll ?xs = Inr ?sx" by simp
  have sp: "statAll ?ys = Inr ?sy" by simp
  have sz: "statAll (?xs @ ?ys) = Inr (?sx @ ?sy)" by simp
  have ia: "items_of ?sx = [JObj [(''id'', JStr ''c'')], JObj [(''id'', JStr ''a'')]]" by code_simp
  have ip: "items_of ?sy = [JObj [(''sampleId'', JStr ''p'')]]" by code_simp
  have la: "statAll (selected_legacy ''audio'' files_small) = Inr ?lsa" by code_simp
  have lp: "statAll (selected_legacy ''pair'' files_small) = Inr ?lsp" by code_simp
  have lz: "statAll (selected_legacy ''all'' files_small) = Inr ?lsz" by code_simp
  have lip: "items_of ?lsp = [JObj [(''sampleId'', JStr ''p'')]]" by code_simp
  have len: "length (?xs @ ?ys) \<le> 50" "length ?lsz \<le> 50" by simp_all
  note t = listing_kind_filter [of store_small ?xs ?sx ?ys ?sy "?xs @ ?ys" "?sx @ ?sy"
                                   files_small ?lsa ?lsp ?lsz]
  have r1: "response_items (list_handler store_small (req_list (Some ''audio''))) = items_of ?sx"
    using t [THEN conjunct1] ha sa by blast
  have r2: "response_items (list_handler store_small (req_list (Some ''pair''))) = items_of ?sy"
    using t [THEN conjunct2, THEN conjunct1] hp sp by blast
  have r3: "set (response_items (list_handler store_small (req_list (Some ''all''))))
       = set (response_items (list_handler store_small (req_list (Some ''audio''))))
         \<union> set (response_items (list_handler store_small (req_list (Some ''pair''))))"
    using t [THEN conjunct2, THEN conjunct2, THEN conjunct1] hz sz len(1) by blast
  have r4: "response_items (list_handler_legacy (Some files_small) (req_list (Some ''pair'')))
            = items_of ?lsp"
    using t [THEN conjunct2, THEN conjunct2, THEN conjunct2, THEN conjunct2, THEN conjunct1] lp by blast
  have r5: "set (response_items (list_handler_legacy (Some files_small) (req_list (Some ''all''))))
       = set (response_items (list_handler_legacy (Some files_small) (req_list (Some ''audio''))))
         \<union> set (response_items (list_handler_legacy (Some files_small) (req_list (Some ''pair''))))"
    using t [THEN conjunct2, THEN conjunct2, THEN conjunct2, THEN conjunct2, THEN conjunct2] lz len(2) by blast
  show ?thesis
    using hz r1 r2 r3 r4 r5 ia ip lip by simp
qed

section \<open>Fifty newer audio records hide a pair\<close>

lemma insertNewest_older_last:
  "snd p < snd x \<Longrightarrow> insertNewest x (ys @ [p]) = insertNewest x ys @ [p]"
  by (induction ys) auto

lemma sortNewestFirst_older_last:
  "\<forall>x\<in>set as. snd p < snd x \<Longrightarrow>
   sortNewestFirst (as @ [p]) = sortNewestFirst as @ [p]"
  unfolding sortNewestFirst_def
  by (induction as) (simp_all add: insertNewest_older_last)

lemma newest50_older_hidden:
  assumes "\<forall>x\<in>set as. snd p < snd x" and "length as = 50"
  shows "set (newest50 (as @ [p])) = set as"
proof -
  have "take 50 (sortNewestFirst as @ [p]) = sortNewestFirst as"
    using assms(2) by (simp add: length_sortNewestFirst)
  then show ?thesis
    using assms(1) by (simp add: newest50_def sortNewestFirst_older_last set_sortNewestFirst)
qed

lemma sidecar_numbered_json: "endsWith (fname (sidecar_numbered n)) ''.json''"
  using endsWith_append [of "''a'' @ digits n" "''.json''"]
  by (simp add: sidecar_numbered_def)

lemma collect_store_fifty:
  "collect store_fifty kind =
     Inr ((if kind = ''audio'' \<or> kind = ''all''
           then map (Pair AUDIO_EN_DIR) (map sidecar_numbered [1..<51]) else [])
          @ (if kind = ''pair'' \<or> kind = ''all''
             then [(PAIRS_DIR, \<lparr>fname = ''p.pair.json'', mtimeMs = Some 0,
                                 json = Some (JObj [(''sampleId'', JStr ''p'')])\<rparr>)]
             else []))"
proof -
  have f: "filter (\<lambda>f. endsWith (fname f) ''.json'') (map sidecar_numbered ns) = map sidecar_numbered ns" for ns
    by (induction ns) (simp_all add: sidecar_numbered_json)
  have g: "endsWith ''p.pair.json'' ''.pair.json''"
    by code_simp
  have "root_ok store_fifty" "en_files store_fifty = Some (map sidecar_numbered [1..<51])"
    "ht_files store_fifty = Some []"
    "pair_files store_fifty = Some [\<lparr>fname = ''p.pair.json'', mtimeMs = Some 0,
                          json = Some (JObj [(''sampleId'', JStr ''p'')])\<rparr>]"
    by (simp_all add: store_fifty_def)
  then show ?thesis
    using f g by (simp add: collect_readable [where a = "map sidecar_numbered [1..<51]" and b = "[]"
                   and c = "[\<lparr>fname = ''p.pair.json'', mtimeMs = Some 0,
                          json = Some (JObj [(''sampleId'', JStr ''p'')])\<rparr>]"])
qed

lemma statAll_numbered:
  "statAll rest = Inr r \<Longrightarrow>
   statAll (map (Pair AUDIO_EN_DIR) (map sidecar_numbered ns) @ rest)
     = Inr (map (\<lambda>n. ((AUDIO_EN_DIR, sidecar_numbered n), real n)) ns @ r)"
  by (induction ns) (simp_all add: sidecar_numbered_def)

text \<open>
  Claim C6 as it was stated fails on a store with fifty audio sidecars newer than its one
  pair: the listing with \<open>kind=pair\<close> returns the pair, the listing with \<open>kind=all\<close>
  returns the fifty audio records and not the pair.
\<close>

theorem listing_all_not_union_counterexample:
  "set (response_items (list_handler store_fifty (req_list (Some ''all''))))
   \<noteq> set (response_items (list_handler store_fifty (req_list (Some ''audio''))))
     \<union> set (response_items (list_handler store_fifty (req_list (Some ''pair''))))"
proof -
  let ?as = "map (Pair AUDIO_EN_DIR) (map sidecar_numbered [1..<51])"
  let ?p = "(PAIRS_DIR, \<lparr>fname = ''p.pair.json'', mtimeMs = Some 0,
                          json = Some (JObj [(''sampleId'', JStr ''p'')])\<rparr>)"
  let ?sas = "map (\<lambda>n. ((AUDIO_EN_DIR, sidecar_numbered n), real n)) [1..<51]"
  let ?sp = "(?p, 0 :: real)"
  let ?v = "JObj [(''sampleId'', JStr ''p'')]"
  have sp: "statAll [?p] = Inr [?sp]" by simp
  have sall: "statAll (?as @ [?p]) = Inr (?sas @ [?sp])"
    using statAll_numbered [OF sp] .
  have "list_handler store_fifty (req_list (Some ''all'')) = list_selected ''all'' (?as @ [?p])"
    using list_handler_kind [of "''all''" store_fifty "?as @ [?p]"]
    by (simp add: toLowerCase_all collect_store_fifty)
  then have all: "response_items (list_handler store_fifty (req_list (Some ''all'')))
                  = items_of (?sas @ [?sp])"
    using list_selected_ok [OF sall, of "''all''"] by simp
  have "list_handler store_fifty (req_list (Some ''pair'')) = list_selected ''pair'' [?p]"
    using list_handler_kind [of "''pair''" store_fifty "[?p]"]
    by (simp add: toLowerCase_pair collect_store_fifty)
  then have pair: "response_items (list_handler store_fifty (req_list (Some ''pair''))) = items_of [?sp]"
    using list_selected_ok [OF sp, of "''pair''"] by simp
  have newer: "\<forall>x\<in>set ?sas. snd ?sp < snd x"
    by auto
  have "set (newest50 (?sas @ [?sp])) = set ?sas"
    using newest50_older_hidden [OF newer] by simp
  then have "set (items_of (?sas @ [?sp])) \<subseteq> readJson ` set ?sas"
    by (auto simp: items_of_set)
  moreover have "?v \<notin> readJson ` set ?sas"
    by (auto simp: readJson_def sidecar_numbered_def)
  ultimately have notin: "?v \<notin> set (items_of (?sas @ [?sp]))"
    by blast
  have "items_of [?sp] = [?v]"
    by (simp add: items_of_def newest50_def sortNewestFirst_def readJson_def)
  then have "?v \<in> set (response_items (list_handler store_fifty (req_list (Some ''pair''))))"
    using pair by simp
  with notin all show ?thesis by auto
qed

section \<open>An unrecognised kind\<close>

lemma collect_unrecognised:
  "kind \<noteq> ''audio'' \<Longrightarrow> kind \<noteq> ''pair'' \<Longrightarrow> kind \<noteq> ''all'' \<Longrightarrow> root_ok st \<Longrightarrow>
   collect st kind = Inr []"
  by (simp add: collect_def)

lemma selected_legacy_unrecognised:
  "kind \<noteq> ''audio'' \<Longrightarrow> kind \<noteq> ''pair'' \<Longrightarrow>
   selected_legacy kind files = selected_legacy ''all'' files"
  by (simp add: selected_legacy_def)

text \<open>
  Claim C9 on the code. With \<open>kind=bogus\<close> the partitioned server selects no file at all
  and answers 200 with an empty list, on a store where \<open>kind=all\<close> returns three records;
  \<open>server.js\<close> returns for \<open>kind=bogus\<close> what it returns for \<open>kind=all\<close>.
\<close>

theorem listing_bogus_kind_is_empty:
  "list_handler store_small (req_list (Some ''bogus'')) = list_ok ''bogus'' []
   \<and> response_items (list_handler store_small (req_list (Some ''all'')))
       = [JObj [(''sampleId'', JStr ''p'')], JObj [(''id'', JStr ''c'')], JObj [(''id'', JStr ''a'')]]
   \<and> response_items (list_handler_legacy (Some files_small) (req_list (Some ''bogus'')))
       = [JObj [(''sampleId'', JStr ''p'')], JObj [(''id'', JStr ''c'')], JObj [(''id'', JStr ''a'')]]
   \<and> response_items (list_handler_legacy (Some files_small) (req_list (Some ''all'')))
       = [JObj [(''sampleId'', JStr ''p'')], JObj [(''id'', JStr ''c'')], JObj [(''id'', JStr ''a'')]]"
  by code_simp

section \<open>The extension mapping is total, ordered and case-insensitive\<close>

lemma toLowerCase_append: "toLowerCase (a @ b) = toLowerCase a @ toLowerCase b"
  by (simp add: toLowerCase_def)

text \<open>
  Claim C5. \<open>extFromContentType\<close> returns a value on every string, one of the five
  extensions. It matches substrings of the lowercased input, the patterns taken in the order
  \<open>audio/webm\<close>, \<open>audio/wav\<close>, \<open>audio/mpeg\<close> or \<open>audio/mp3\<close>, \<open>audio/ogg\<close>: the first
  pattern that occurs decides, and a string with none of them gives \<open>.bin\<close>. Two strings
  with the same lowercase form get the same extension, and a pattern in any letter case
  is found wherever it stands in the string.
\<close>

theorem extFromContentType_mapping:
  "extFromContentType ct \<in> {''.webm'', ''.wav'', ''.mp3'', ''.ogg'', ''.bin''}
   \<and> (includesStr (toLowerCase ct) ''audio/webm'' \<longrightarrow> extFromContentType ct = ''.webm'')
   \<and> (\<not> includesStr (toLowerCase ct) ''audio/webm'' \<and> includesStr (toLowerCase ct) ''audio/wav''
        \<longrightarrow> extFromContentType ct = ''.wav'')
   \<and> (\<not> includesStr (toLowerCase ct) ''audio/webm'' \<and> \<not> includesStr (toLowerCase ct) ''audio/wav''
        \<and> (includesStr (toLowerCase ct) ''audio/mpeg'' \<or> includesStr (toLowerCase ct) ''audio/mp3'')
        \<longrightarrow> extFromContentType ct = ''.mp3'')
   \<and> (\<not> includesStr (toLowerCase ct) ''audio/webm'' \<and> \<not> includesStr (toLowerCase ct) ''audio/wav''
        \<and> \<not> includesStr (toLowerCase ct) ''audio/mpeg'' \<and> \<not> includesStr (toLowerCase ct) ''audio/mp3''
        \<and> includesStr (toLowerCase ct) ''audio/ogg''
        \<longrightarrow> extFromContentType ct = ''.ogg'')
   \<and> (\<not> includesStr (toLowerCase ct) ''audio/webm'' \<and> \<not> includesStr (toLowerCase ct) ''audio/wav''
        \<and> \<not> includesStr (toLowerCase ct) ''audio/mpeg'' \<and> \<not> includesStr (toLowerCase ct) ''audio/mp3''
        \<and> \<not> includesStr (toLowerCase ct) ''audio/ogg''
        \<longrightarrow> extFromContentType ct = ''.bin'')
   \<and> (toLowerCase ct = toLowerCase ct' \<longrightarrow> extFromContentType ct = extFromContentType ct')
   \<and> (toLowerCase p = ''audio/webm'' \<longrightarrow> extFromContentType (a @ p @ b) = ''.webm'')
   \<and> (includesStr (toLowerCase ct) q \<longleftrightarrow> (\<exists>u v. toLowerCase ct = u @ q @ v))"
proof -
  have sub: "toLowerCase p = ''audio/webm'' \<Longrightarrow> includesStr (toLowerCase (a @ p @ b)) ''audio/webm''"
    using includesStr_append [of "toLowerCase a" "''audio/webm''" "toLowerCase b"]
    by (simp add: toLowerCase_append)
  have mean: "includesStr (toLowerCase ct) q \<longleftrightarrow> (\<exists>u v. toLowerCase ct = u @ q @ v)"
    by (simp add: includesStr_sublist sublist_def)
  have rest: "extFromContentType ct \<in> {''.webm'', ''.wav'', ''.mp3'', ''.ogg'', ''.bin''}
   \<and> (includesStr (toLowerCase ct) ''audio/webm'' \<longrightarrow> extFromContentType ct = ''.webm'')
   \<and> (\<not> includesStr (toLowerCase ct) ''audio/webm'' \<and> includesStr (toLowerCase ct) ''audio/wav''
        \<longrightarrow> extFromContentType ct = ''.wav'')
   \<and> (\<not> includesStr (toLowerCase ct) ''audio/webm'' \<and> \<not> includesStr (toLowerCase ct) ''audio/wav''
        \<and> (includesStr (toLowerCase ct) ''audio/mpeg'' \<or> includesStr (toLowerCase ct) ''audio/mp3'')
        \<longrightarrow> extFromContentType ct = ''.mp3'')
   \<and> (\<not> includesStr (toLowerCase ct) ''audio/webm'' \<and> \<not> includesStr (toLowerCase ct) ''audio/wav''
        \<and> \<not> includesStr (toLowerCase ct) ''audio/mpeg'' \<and> \<not> includesStr (toLowerCase ct) ''audio/mp3''
        \<and> includesStr (toLowerCase ct) ''audio/ogg''
        \<longrightarrow> extFromContentType ct = ''.ogg'')
   \<and> (\<not> includesStr (toLowerCase ct) ''audio/webm'' \<and> \<not> includesStr (toLowerCase ct) ''audio/wav''
        \<and> \<not> includesStr (toLowerCase ct) ''audio/mpeg'' \<and> \<not> includesStr (toLowerCase ct) ''audio/mp3''
        \<and> \<not> includesStr (toLowerCase ct) ''audio/ogg''
        \<longrightarrow> extFromContentType ct = ''.bin'')
   \<and> (toLowerCase ct = toLowerCase ct' \<longrightarrow> extFromContentType ct = extFromContentType ct')"
    unfolding extFromContentType_def Let_def by simp
  have last: "toLowerCase p = ''audio/webm'' \<longrightarrow> extFromContentType (a @ p @ b) = ''.webm''"
    using sub unfolding extFromContentType_def Let_def by simp
  show ?thesis using rest last mean by blast
qed

theorem extFromContentType_mapping_witness:
  "includesStr (toLowerCase ''Audio/WebM;codecs=opus'') ''audio/webm''
   \<and> extFromContentType ''Audio/WebM;codecs=opus'' = ''.webm''
   \<and> \<not> includesStr (toLowerCase ''AUDIO/WAV'') ''audio/webm''
   \<and> includesStr (toLowerCase ''AUDIO/WAV'') ''audio/wav''
   \<and> extFromContentType ''AUDIO/WAV'' = ''.wav''
   \<and> extFromContentType ''audio/mpeg'' = ''.mp3''
   \<and> extFromContentType ''audio/MP3'' = ''.mp3''
   \<and> extFromContentType ''application/ogg, audio/ogg'' = ''.ogg''
   \<and> extFromContentType ''application/octet-stream'' = ''.bin''
   \<and> extFromContentType [] = ''.bin''
   \<and> toLowerCase ''AUDIO/OGG'' = toLowerCase ''audio/ogg''
   \<and> extFromContentType ''AUDIO/OGG'' = extFromContentType ''audio/ogg''
   \<and> toLowerCase ''Audio/Webm'' = ''audio/webm''
   \<and> extFromContentType (''x '' @ ''Audio/Webm'' @ ''; y'') = ''.webm''"
proof -
  have w1: "includesStr (toLowerCase ''Audio/WebM;codecs=opus'') ''audio/webm''" by code_simp
  have w2: "\<not> includesStr (toLowerCase ''AUDIO/WAV'') ''audio/webm''
            \<and> includesStr (toLowerCase ''AUDIO/WAV'') ''audio/wav''" by code_simp
  have w3: "\<not> includesStr (toLowerCase ''audio/mpeg'') ''audio/webm''
            \<and> \<not> includesStr (toLowerCase ''audio/mpeg'') ''audio/wav''
            \<and> includesStr (toLowerCase ''audio/mpeg'') ''audio/mpeg''" by code_simp
  have w4: "\<not> includesStr (toLowerCase ''audio/MP3'') ''audio/webm''
            \<and> \<not> includesStr (toLowerCase ''audio/MP3'') ''audio/wav''
            \<and> includesStr (toLowerCase ''audio/MP3'') ''audio/mp3''" by code_simp
  have w5: "\<not> includesStr (toLowerCase ''application/ogg, audio/ogg'') ''audio/webm''
            \<and> \<not> includesStr (toLowerCase ''application/ogg, audio/ogg'') ''audio/wav''
            \<and> \<not> includesStr (toLowerCase ''application/ogg, audio/ogg'') ''audio/mpeg''
            \<and> \<not> includesStr (toLowerCase ''application/ogg, audio/ogg'') ''audio/mp3''
            \<and> includesStr (toLowerCase ''application/ogg, audio/ogg'') ''audio/ogg''" by code_simp
  have w6: "\<not> includesStr (toLowerCase ''application/octet-stream'') ''audio/webm''
            \<and> \<not> includesStr (toLowerCase ''application/octet-stream'') ''audio/wav''
            \<and> \<not> includesStr (toLowerCase ''application/octet-stream'') ''audio/mpeg''
            \<and> \<not> includesStr (toLowerCase ''application/octet-stream'') ''audio/mp3''
            \<and> \<not> includesStr (toLowerCase ''application/octet-stream'') ''audio/ogg''" by code_simp
  have w7: "\<not> includesStr (toLowerCase []) ''audio/webm''
            \<and> \<not> includesStr (toLowerCase []) ''audio/wav''
            \<and> \<not> includesStr (toLowerCase []) ''audio/mpeg''
            \<and> \<not> includesStr (toLowerCase []) ''audio/mp3''
            \<and> \<not> includesStr (toLowerCase []) ''audio/ogg''" by code_simp
  have w8: "toLowerCase ''AUDIO/OGG'' = toLowerCase ''audio/ogg''" by code_simp
  have w9: "toLowerCase ''Audio/Webm'' = ''audio/webm''" by code_simp
  have e1: "extFromContentType ''Audio/WebM;codecs=opus'' = ''.webm''"
    using extFromContentType_mapping [of "''Audio/WebM;codecs=opus''" "[]" "[]" "[]" "[]" "[]"] w1
    by (elim conjE) simp
  have e2: "extFromContentType ''AUDIO/WAV'' = ''.wav''"
    using extFromContentType_mapping [of "''AUDIO/WAV''" "[]" "[]" "[]" "[]" "[]"] w2
    by (elim conjE) simp
  have e3: "extFromContentType ''audio/mpeg'' = ''.mp3''"
    using extFromContentType_mapping [of "''audio/mpeg''" "[]" "[]" "[]" "[]" "[]"] w3
    by (elim conjE) simp
  have e4: "extFromContentType ''audio/MP3'' = ''.mp3''"
    using extFromContentType_mapping [of "''audio/MP3''" "[]" "[]" "[]" "[]" "[]"] w4
    by (elim conjE) simp
  have e5: "extFromContentType ''application/ogg, audio/ogg'' = ''.ogg''"
    using extFromContentType_mapping [of "''application/ogg, audio/ogg''" "[]" "[]" "[]" "[]" "[]"] w5
    by (elim conjE) simp
  have e6: "extFromContentType ''application/octet-stream'' = ''.bin''"
    using extFromContentType_mapping [of "''application/octet-stream''" "[]" "[]" "[]" "[]" "[]"] w6
    by (elim conjE) simp
  have e7: "extFromContentType [] = ''.bin''"
    using extFromContentType_mapping [of "[]" "[]" "[]" "[]" "[]" "[]"] w7
    by (elim conjE) simp
  have e8: "extFromContentType ''AUDIO/OGG'' = extFromContentType ''audio/ogg''"
    using extFromContentType_mapping [of "''AUDIO/OGG''" "''audio/ogg''" "[]" "[]" "[]" "[]"] w8
    by (elim conjE) simp
  have e9: "extFromContentType (''x '' @ ''Audio/Webm'' @ ''; y'') = ''.webm''"
    using extFromContentType_mapping [of "[]" "[]" "''Audio/Webm''" "''x ''" "''; y''" "[]"] w9
    by (elim conjE) simp
  show ?thesis
    using w1 w2 w8 w9 e1 e2 e3 e4 e5 e6 e7 e8 e9 by (intro conjI) simp_all
qed

section \<open>Reading the body and calling the filesystem\<close>

lemma readBody_loop_within:
  "t + int (sum_list (map length cs)) \<le> m \<Longrightarrow> readBody_loop m cs t acc = Inr (concat (acc @ cs))"
  by (induction cs arbitrary: t acc) (simp_all add: Let_def)

lemma readBody_loop_exceeds:
  "t \<le> m \<Longrightarrow> m < t + int (sum_list (map length cs)) \<Longrightarrow>
   readBody_loop m cs t acc = Inl (BodyTooLarge m)"
  by (induction cs arbitrary: t acc) (simp_all add: Let_def)

lemma readBody_within:
  "int (sum_list (map length cs)) \<le> m \<Longrightarrow> readBody cs m = Inr (concat cs)"
  using readBody_loop_within [of 0 cs m "[]"] by (simp add: readBody_def)

lemma readBody_exceeds:
  "0 \<le> m \<Longrightarrow> m < int (sum_list (map length cs)) \<Longrightarrow> readBody cs m = Inl (BodyTooLarge m)"
  using readBody_loop_exceeds [of 0 m cs "[]"] by (simp add: readBody_def)

lemma readBody_loop_result:
  "readBody_loop m cs t acc = Inr bd \<Longrightarrow> bd = concat (acc @ cs)"
proof (induction cs arbitrary: t acc)
  case Nil
  then show ?case by simp
next
  case (Cons a cs)
  from Cons.prems have "readBody_loop m cs (t + int (length a)) (acc @ [a]) = Inr bd"
    by (simp add: Let_def split: if_splits)
  from Cons.IH [OF this] show ?case by simp
qed

lemma readBody_result: "readBody cs m = Inr bd \<Longrightarrow> bd = concat cs"
  using readBody_loop_result [of m cs 0 "[]" bd] by (simp add: readBody_def)

lemma perform_ok: "perform fl cs = (ds, None) \<Longrightarrow> ds = cs"
  by (induction cs arbitrary: ds) (auto split: if_splits prod.splits)

lemma perform_no_failure: "\<forall>c\<in>set cs. \<not> fl c \<Longrightarrow> perform fl cs = (cs, None)"
  by (induction cs) simp_all

lemma perform_prefix: "prefix (fst (perform fl cs)) cs"
  by (induction cs) (auto split: prod.splits)

section \<open>Audio ingest\<close>

lemma asr_handler_oversized:
  assumes "0 \<le> MAX_FILE_SIZE (maxFileSizeEnv e)"
    and "MAX_FILE_SIZE (maxFileSizeEnv e) < int (sum_list (map length (chunks req)))"
  shows "asr_handler e req
         = (failed ''ASR save failed'' (BodyTooLarge (MAX_FILE_SIZE (maxFileSizeEnv e))), [])"
  using readBody_exceeds [OF assms] by (simp add: asr_handler_def Let_def)

lemma asr_handler_status: "status (fst (asr_handler e req)) = 200 \<or> status (fst (asr_handler e req)) = 500"
  by (auto simp: asr_handler_def Let_def failed_def split: sum.splits prod.splits option.splits)

lemma length_split: "length (split sep s) = Suc (length (filter (\<lambda>c. c = sep) s))"
  by (induction s) (auto split: list.splits)

lemma last_split_segment:
  "CHR ''/'' \<notin> set seg \<Longrightarrow> last (split CHR ''/'' (p @ ''/'' @ seg)) = seg"
proof (induction p)
  case Nil
  have "split CHR ''/'' seg = [seg]" using Nil
    by (induction seg) auto
  then show ?case by simp
next
  case (Cons c p)
  have "2 \<le> length (split CHR ''/'' (p @ ''/'' @ seg))"
    by (simp add: length_split)
  then obtain x y zs where "split CHR ''/'' (p @ ''/'' @ seg) = x # y # zs"
    by (cases "split CHR ''/'' (p @ ''/'' @ seg)" rule: list.exhaust)
       (auto simp: Suc_le_eq neq_Nil_conv)
  with Cons show ?case by auto
qed

lemma asr_upload_rejects:
  assumes "httpMethod ev = ''POST''" and "path ev = p @ ''/'' @ seg" and "CHR ''/'' \<notin> set seg"
    and "seg \<noteq> ''en''" and "seg \<noteq> ''ht''"
  shows "status (fst (asr_upload_handler e ev)) = 400 \<and> snd (asr_upload_handler e ev) = []"
  using assms last_split_segment [of seg p]
  by (simp add: asr_upload_handler_def Let_def)

text \<open>
  Claim C1 on the code. \<open>POST /api/asr/fr\<close> is answered 200 by both servers, which write
  the blob and its sidecar: the partitioned server files the clip as English (\<open>en-US\<close>) in
  the English directory, \<open>server.js\<close> records the language \<open>fr\<close>. The Netlify function
  answers 400 on the same path and calls the filesystem not at all.
\<close>

theorem asr_unsupported_lang_is_stored:
  "status (fst (asr_handler env0 req_asr_fr)) = 200
   \<and> getProp (jsonBody (fst (asr_handler env0 req_asr_fr))) ''lang'' = JStr ''en-US''
   \<and> snd (asr_handler env0 req_asr_fr)
       = [Mkdir AUDIO_EN_DIR, Mkdir MANIFESTS_DIR,
          WriteFile AUDIO_EN_DIR ''u1.webm'' (Raw [97, 98, 99]),
          WriteFile AUDIO_EN_DIR ''u1.json''
            (JsonText (JObj (asr_metadata env0 req_asr_fr ''fr'' [97, 98, 99])))]
   \<and> status (fst (asr_handler_legacy env0 req_asr_fr)) = 200
   \<and> getProp (jsonBody (fst (asr_handler_legacy env0 req_asr_fr))) ''lang'' = JStr ''fr''
   \<and> snd (asr_handler_legacy env0 req_asr_fr)
       = [Mkdir DATA_DIR,
          WriteFile DATA_DIR ''u1.webm'' (Raw [97, 98, 99]),
          WriteFile DATA_DIR ''u1.json''
            (JsonText (JObj (asr_metadata_legacy env0 req_asr_fr ''fr'' [97, 98, 99])))]
   \<and> status (fst (asr_upload_handler env0 ev_asr_fr)) = 400
   \<and> snd (asr_upload_handler env0 ev_asr_fr) = []"
  by code_simp

text \<open>
  Claim C4 on the code. A body of 10 MiB and one byte, with \<open>MAX_FILE_SIZE\<close> at its
  default: the partitioned server answers 500 and calls the filesystem not at all;
  \<open>server.js\<close>, whose \<open>readBody\<close> has no bound, answers 200 and writes the whole blob and
  its sidecar.
\<close>

theorem asr_oversized_is_stored_by_legacy:
  "asr_handler env0 req_asr_big = (failed ''ASR save failed'' (BodyTooLarge 10485760), [])
   \<and> status (fst (asr_handler_legacy env0 req_asr_big)) = 200
   \<and> getProp (jsonBody (fst (asr_handler_legacy env0 req_asr_big))) ''bytes'' = JNum 10485761
   \<and> snd (asr_handler_legacy env0 req_asr_big)
       = [Mkdir DATA_DIR,
          WriteFile DATA_DIR ''u1.webm'' (Raw (replicate 10485761 0)),
          WriteFile DATA_DIR ''u1.json''
            (JsonText (JObj (asr_metadata_legacy env0 req_asr_big ''en'' (replicate 10485761 0))))]"
proof -
  have m: "MAX_FILE_SIZE (maxFileSizeEnv env0) = 10485760"
    by (simp add: MAX_FILE_SIZE_def env0_def)
  have big: "MAX_FILE_SIZE (maxFileSizeEnv env0) < int (sum_list (map length (chunks req_asr_big)))"
    by (simp add: m req_asr_big_def)
  have a: "asr_handler env0 req_asr_big = (failed ''ASR save failed'' (BodyTooLarge 10485760), [])"
    using asr_handler_oversized [of env0 req_asr_big] big m by simp
  have seg: "langSegment (pathname req_asr_big) = ''en''"
    by (simp add: req_asr_big_def) code_simp
  have ext: "extFromContentType (orElse (contentTypeHeader req_asr_big) ''application/octet-stream'') = ''.webm''"
    by (simp add: req_asr_big_def) code_simp
  have nf: "fails env0 = (\<lambda>c. False)" "uuid env0 = ''u1''"
    by (simp_all add: env0_def)
  have bd: "readBody_unbounded (chunks req_asr_big) = replicate 10485761 0"
    by (simp add: readBody_unbounded_def req_asr_big_def)
  have l: "asr_handler_legacy env0 req_asr_big
       = (\<lparr>status = 200,
            jsonBody = JObj ((''ok'', JBool True)
                        # asr_metadata_legacy env0 req_asr_big ''en'' (replicate 10485761 0)),
            details = None\<rparr>,
          [Mkdir DATA_DIR,
           WriteFile DATA_DIR ''u1.webm'' (Raw (replicate 10485761 0)),
           WriteFile DATA_DIR ''u1.json''
             (JsonText (JObj (asr_metadata_legacy env0 req_asr_big ''en'' (replicate 10485761 0))))])"
    by (simp add: asr_handler_legacy_def Let_def seg ext nf bd ensureDir_quiet_def)
  have b: "getProp (JObj ((''ok'', JBool True)
                        # asr_metadata_legacy env0 req_asr_big ''en'' (replicate 10485761 0))) ''bytes''
           = JNum 10485761"
    by (simp add: asr_metadata_legacy_def Let_def)
  show ?thesis using a l b by simp
qed

lemma asr_handler_success:
  assumes "asr_handler e req = (r, calls)" and "status r = 200"
  shows "r = \<lparr>status = 200,
              jsonBody = JObj ((''ok'', JBool True)
                          # asr_metadata e req (toLowerCase (langSegment (pathname req)))
                              (concat (chunks req))),
              details = None\<rparr>
         \<and> calls = [Mkdir (if toLowerCase (langSegment (pathname req)) = ''ht''
                             then AUDIO_HT_DIR else AUDIO_EN_DIR),
                      Mkdir MANIFESTS_DIR,
                      WriteFile (if toLowerCase (langSegment (pathname req)) = ''ht''
                                 then AUDIO_HT_DIR else AUDIO_EN_DIR)
                        (uuid e @ extFromContentType
                                    (orElse (contentTypeHeader req) ''application/octet-stream''))
                        (Raw (concat (chunks req))),
                      WriteFile (if toLowerCase (langSegment (pathname req)) = ''ht''
                                 then AUDIO_HT_DIR else AUDIO_EN_DIR)
                        (uuid e @ ''.json'')
                        (JsonText (JObj (asr_metadata e req (toLowerCase (langSegment (pathname req)))
                                           (concat (chunks req)))))]"
proof (cases "readBody (chunks req) (MAX_FILE_SIZE (maxFileSizeEnv e))")
  case (Inl err)
  with assms show ?thesis by (auto simp: asr_handler_def Let_def failed_def)
next
  case (Inr bd)
  then have bd: "bd = concat (chunks req)" by (rule readBody_result)
  let ?lang = "toLowerCase (langSegment (pathname req))"
  let ?folder = "if ?lang = ''ht'' then AUDIO_HT_DIR else AUDIO_EN_DIR"
  let ?cs = "[Mkdir ?folder, Mkdir MANIFESTS_DIR,
              WriteFile ?folder
                (uuid e @ extFromContentType
                            (orElse (contentTypeHeader req) ''application/octet-stream''))
                (Raw bd),
              WriteFile ?folder (uuid e @ ''.json'') (JsonText (JObj (asr_metadata e req ?lang bd)))]"
  obtain ds err where p: "perform (fails e) ?cs = (ds, err)"
    by (cases "perform (fails e) ?cs") auto
  show ?thesis
  proof (cases err)
    case None
    with p have "ds = ?cs" using perform_ok by blast
    with assms Inr p None bd show ?thesis
      by (auto simp: asr_handler_def Let_def simp del: perform.simps)
  next
    case (Some x)
    with assms Inr p show ?thesis
      by (auto simp: asr_handler_def Let_def failed_def simp del: perform.simps)
  qed
qed

lemma asr_handler_legacy_success:
  assumes "asr_handler_legacy e req = (r, calls)" and "status r = 200"
  shows "r = \<lparr>status = 200,
              jsonBody = JObj ((''ok'', JBool True)
                          # asr_metadata_legacy e req (langSegment (pathname req))
                              (concat (chunks req))),
              details = None\<rparr>
         \<and> calls = ensureDir_quiet (fails e) DATA_DIR
                    @ [WriteFile DATA_DIR
                        (uuid e @ extFromContentType
                                    (orElse (contentTypeHeader req) ''application/octet-stream''))
                        (Raw (concat (chunks req))),
                      WriteFile DATA_DIR (uuid e @ ''.json'')
                        (JsonText (JObj (asr_metadata_legacy e req (langSegment (pathname req))
                                           (concat (chunks req)))))]"
proof -
  let ?bd = "concat (chunks req)"
  let ?cs = "[WriteFile DATA_DIR
                (uuid e @ extFromContentType
                            (orElse (contentTypeHeader req) ''application/octet-stream''))
                (Raw ?bd),
              WriteFile DATA_DIR (uuid e @ ''.json'')
                (JsonText (JObj (asr_metadata_legacy e req (langSegment (pathname req)) ?bd)))]"
  obtain ds err where p: "perform (fails e) ?cs = (ds, err)"
    by (cases "perform (fails e) ?cs") auto
  show ?thesis
  proof (cases err)
    case None
    with p have "ds = ?cs" using perform_ok by blast
    with assms p None show ?thesis
      by (auto simp: asr_handler_legacy_def readBody_unbounded_def Let_def simp del: perform.simps)
  next
    case (Some x)
    with assms p show ?thesis
      by (auto simp: asr_handler_legacy_def readBody_unbounded_def Let_def failed_def simp del: perform.simps)
  qed
qed

lemma asr_metadata_ip:
  "map_of (asr_metadata e req lang bd) ''ip''
     = Some (case remoteAddress req of None \<Rightarrow> JUndefined | Some a \<Rightarrow> JStr a)
   \<and> map_of (asr_metadata e req lang bd) ''userAgent''
     = Some (JStr (orElse (userAgentHeader req) []))"
  by (simp add: asr_metadata_def Let_def)

lemma asr_metadata_legacy_ip:
  "map_of (asr_metadata_legacy e req lang bd) ''ip''
     = Some (case remoteAddress req of None \<Rightarrow> JUndefined | Some a \<Rightarrow> JStr a)
   \<and> map_of (asr_metadata_legacy e req lang bd) ''userAgent''
     = Some (JStr (orElse (userAgentHeader req) []))"
  by (simp add: asr_metadata_legacy_def Let_def)

text \<open>
  Claim C10. When an ingest of either server answers 200, the last filesystem call wrote
  the sidecar \<open><id>.json\<close>, whose metadata has the property \<open>ip\<close> with the value of
  \<open>req.socket.remoteAddress\<close> and the property \<open>userAgent\<close> with the \<open>user-agent\<close> header
  (the empty string when the header is absent or empty); the response body is that same
  metadata behind \<open>ok: true\<close>, so it carries both properties with the same values.
\<close>

theorem asr_success_stores_ip_and_user_agent:
  "(asr_handler e req = (r, calls) \<and> status r = 200 \<longrightarrow>
      (\<exists>folder meta.
          calls \<noteq> [] \<and> last calls = WriteFile folder (uuid e @ ''.json'') (JsonText (JObj meta))
          \<and> jsonBody r = JObj ((''ok'', JBool True) # meta)
          \<and> map_of meta ''ip'' = Some (case remoteAddress req of None \<Rightarrow> JUndefined | Some a \<Rightarrow> JStr a)
          \<and> map_of meta ''userAgent'' = Some (JStr (orElse (userAgentHeader req) [])))
      \<and> getProp (jsonBody r) ''ip'' = (case remoteAddress req of None \<Rightarrow> JUndefined | Some a \<Rightarrow> JStr a)
      \<and> getProp (jsonBody r) ''userAgent'' = JStr (orElse (userAgentHeader req) []))
   \<and> (asr_handler_legacy e req = (r', calls') \<and> status r' = 200 \<longrightarrow>
      (\<exists>folder meta.
          calls' \<noteq> [] \<and> last calls' = WriteFile folder (uuid e @ ''.json'') (JsonText (JObj meta))
          \<and> jsonBody r' = JObj ((''ok'', JBool True) # meta)
          \<and> map_of meta ''ip'' = Some (case remoteAddress req of None \<Rightarrow> JUndefined | Some a \<Rightarrow> JStr a)
          \<and> map_of meta ''userAgent'' = Some (JStr (orElse (userAgentHeader req) [])))
      \<and> getProp (jsonBody r') ''ip'' = (case remoteAddress req of None \<Rightarrow> JUndefined | Some a \<Rightarrow> JStr a)
      \<and> getProp (jsonBody r') ''userAgent'' = JStr (orElse (userAgentHeader req) []))"
proof (intro conjI impI)
  assume h: "asr_handler e req = (r, calls) \<and> status r = 200"
  let ?lang = "toLowerCase (langSegment (pathname req))"
  let ?bd = "concat (chunks req)"
  from h have rc: "r = \<lparr>status = 200,
              jsonBody = JObj ((''ok'', JBool True) # asr_metadata e req ?lang ?bd),
              details = None\<rparr>"
    "calls \<noteq> []"
    "last calls = WriteFile (if ?lang = ''ht'' then AUDIO_HT_DIR else AUDIO_EN_DIR)
                   (uuid e @ ''.json'') (JsonText (JObj (asr_metadata e req ?lang ?bd)))"
    using asr_handler_success [of e req r calls] by simp_all
  show "\<exists>folder meta.
          calls \<noteq> [] \<and> last calls = WriteFile folder (uuid e @ ''.json'') (JsonText (JObj meta))
          \<and> jsonBody r = JObj ((''ok'', JBool True) # meta)
          \<and> map_of meta ''ip'' = Some (case remoteAddress req of None \<Rightarrow> JUndefined | Some a \<Rightarrow> JStr a)
          \<and> map_of meta ''userAgent'' = Some (JStr (orElse (userAgentHeader req) []))"
    using rc asr_metadata_ip [of e req ?lang ?bd] by auto
  show "getProp (jsonBody r) ''ip'' = (case remoteAddress req of None \<Rightarrow> JUndefined | Some a \<Rightarrow> JStr a)"
    using rc(1) asr_metadata_ip [of e req ?lang ?bd] by simp
  show "getProp (jsonBody r) ''userAgent'' = JStr (orElse (userAgentHeader req) [])"
    using rc(1) asr_metadata_ip [of e req ?lang ?bd] by simp
next
  assume h: "asr_handler_legacy e req = (r', calls') \<and> status r' = 200"
  let ?lang = "langSegment (pathname req)"
  let ?bd = "concat (chunks req)"
  from h have rc: "r' = \<lparr>status = 200,
              jsonBody = JObj ((''ok'', JBool True) # asr_metadata_legacy e req ?lang ?bd),
              details = None\<rparr>"
    "calls' \<noteq> []"
    "last calls' = WriteFile DATA_DIR
                   (uuid e @ ''.json'') (JsonText (JObj (asr_metadata_legacy e req ?lang ?bd)))"
    using asr_handler_legacy_success [of e req r' calls'] by simp_all
  show "\<exists>folder meta.
          calls' \<noteq> [] \<and> last calls' = WriteFile folder (uuid e @ ''.json'') (JsonText (JObj meta))
          \<and> jsonBody r' = JObj ((''ok'', JBool True) # meta)
          \<and> map_of meta ''ip'' = Some (case remoteAddress req of None \<Rightarrow> JUndefined | Some a \<Rightarrow> JStr a)
          \<and> map_of meta ''userAgent'' = Some (JStr (orElse (userAgentHeader req) []))"
    using rc asr_metadata_legacy_ip [of e req ?lang ?bd] by auto
  show "getProp (jsonBody r') ''ip'' = (case remoteAddress req of None \<Rightarrow> JUndefined | Some a \<Rightarrow> JStr a)"
    using rc(1) asr_metadata_legacy_ip [of e req ?lang ?bd] by simp
  show "getProp (jsonBody r') ''userAgent'' = JStr (orElse (userAgentHeader req) [])"
    using rc(1) asr_metadata_legacy_ip [of e req ?lang ?bd] by simp
qed

theorem asr_success_stores_ip_and_user_agent_witness:
  "status (fst (asr_handler env0 req_asr_fr)) = 200
   \<and> getProp (jsonBody (fst (asr_handler env0 req_asr_fr))) ''ip'' = JStr ''203.0.113.7''
   \<and> getProp (jsonBody (fst (asr_handler env0 req_asr_fr))) ''userAgent'' = JStr ''curl/8.0''
   \<and> status (fst (asr_handler_legacy env0 req_asr_fr)) = 200
   \<and> getProp (jsonBody (fst (asr_handler_legacy env0 req_asr_fr))) ''ip'' = JStr ''203.0.113.7''
   \<and> getProp (jsonBody (fst (asr_handler_legacy env0 req_asr_fr))) ''userAgent'' = JStr ''curl/8.0''"
proof -
  have s: "status (fst (asr_handler env0 req_asr_fr)) = 200" by code_simp
  have s': "status (fst (asr_handler_legacy env0 req_asr_fr)) = 200" by code_simp
  have v: "(case remoteAddress req_asr_fr of None \<Rightarrow> JUndefined | Some a \<Rightarrow> JStr a) = JStr ''203.0.113.7''"
    "orElse (userAgentHeader req_asr_fr) [] = ''curl/8.0''"
    by (simp_all add: req_asr_fr_def orElse_def)
  from asr_success_stores_ip_and_user_agent
         [of env0 req_asr_fr "fst (asr_handler env0 req_asr_fr)" "snd (asr_handler env0 req_asr_fr)"
             "fst (asr_handler_legacy env0 req_asr_fr)" "snd (asr_handler_legacy env0 req_asr_fr)"]
       s s' v
  show ?thesis by simp
qed

section \<open>Pair linking\<close>

lemma missingFields_iff:
  "k \<in> set (missingFields payload) \<longleftrightarrow> k \<in> set requiredNames \<and> \<not> truthy (getProp payload k)"
  by (auto simp: missingFields_def requiredNames_def)

lemma missingFields_distinct: "distinct (missingFields payload)"
  by (simp add: missingFields_def requiredNames_def)

lemma link_netlify_enumerates:
  assumes "httpMethod ev = ''POST''" and "payloadJson ev = Some (JObj ps)"
    and "missingFields (JObj ps) \<noteq> []"
  shows "status (fst (link_handler_netlify e ev)) = 400
         \<and> getProp (jsonBody (fst (link_handler_netlify e ev))) ''missingFields''
             = JArr (map JStr (missingFields (JObj ps)))
         \<and> snd (link_handler_netlify e ev) = []"
  using assms by (simp add: link_handler_netlify_def Let_def)

lemma link_handler_no_consent:
  assumes "bodyJson req = Some v"
    and "\<not> truthy (dflt (getProp (js_or v (JObj [])) ''consent'') (JBool False))"
    and "int (sum_list (map length (chunks req))) \<le> MAX_FILE_SIZE (maxFileSizeEnv e)"
    and "\<not> fails e (Mkdir PAIRS_DIR)"
  shows "link_handler e req
         = (\<lparr>status = 400,
              jsonBody = JObj [(''ok'', JBool False),
                               (''error'', JStr ''Missing required fields or consent=false'')],
              details = None\<rparr>, [Mkdir PAIRS_DIR])"
  using assms readBody_within [OF assms(3)]
  by (simp add: link_handler_def Let_def)

lemma link_handler_write_needs_consent:
  assumes "WriteFile d n x \<in> set (snd (link_handler e req))"
  shows "\<exists>v. bodyJson req = Some v
             \<and> truthy (dflt (getProp (js_or v (JObj [])) ''consent'') (JBool False))"
  using assms
  by (auto simp: link_handler_def Let_def split: if_splits sum.splits option.splits prod.splits)

text \<open>
  Claim C2 on the code. A link request without \<open>category\<close> and with consent: both servers
  answer 400 with one fixed message and no \<open>missingFields\<close> property; the Netlify
  function answers 400 with \<open>missingFields\<close> holding exactly \<open>category\<close>.
\<close>

theorem link_missing_category_not_enumerated:
  "link_handler env0 (req_link payload_no_category)
     = (\<lparr>status = 400,
          jsonBody = JObj [(''ok'', JBool False),
                           (''error'', JStr ''Missing required fields or consent=false'')],
          details = None\<rparr>, [Mkdir PAIRS_DIR])
   \<and> getProp (jsonBody (fst (link_handler env0 (req_link payload_no_category)))) ''missingFields''
       = JUndefined
   \<and> link_handler_legacy env0 (req_link payload_no_category)
     = (\<lparr>status = 400,
          jsonBody = JObj [(''ok'', JBool False), (''error'', JStr ''Missing required fields'')],
          details = None\<rparr>, [Mkdir DATA_DIR])
   \<and> getProp (jsonBody (fst (link_handler_legacy env0 (req_link payload_no_category)))) ''missingFields''
       = JUndefined
   \<and> status (fst (link_handler_netlify env0 (ev_link payload_no_category))) = 400
   \<and> getProp (jsonBody (fst (link_handler_netlify env0 (ev_link payload_no_category)))) ''missingFields''
       = JArr [JStr ''category'']"
  by code_simp

theorem link_missing_category_not_enumerated_witness:
  "status (fst (link_handler env0 (req_link payload_no_category))) = 400
   \<and> getProp (jsonBody (fst (link_handler env0 (req_link payload_no_category)))) ''missingFields''
       = JUndefined
   \<and> status (fst (link_handler_legacy env0 (req_link payload_no_category))) = 400"
  using link_missing_category_not_enumerated by simp

text \<open>
  Claim C3 on the code. A link request with every required field and \<open>consent: false\<close>:
  \<open>server.js\<close>, which never reads \<open>consent\<close>, answers 200 and writes the pair file; the
  partitioned server and the Netlify function answer 400 and write no file.
\<close>

theorem link_without_consent_stored_by_legacy:
  "status (fst (link_handler_legacy env0 (req_link payload_no_consent))) = 200
   \<and> snd (link_handler_legacy env0 (req_link payload_no_consent))
       = [Mkdir DATA_DIR,
          WriteFile DATA_DIR ''u1.pair.json''
            (JsonText (getProp (jsonBody (fst (link_handler_legacy env0 (req_link payload_no_consent))))
                         ''record''))]
   \<and> getProp (getProp (jsonBody (fst (link_handler_legacy env0 (req_link payload_no_consent))))
                ''record'') ''term'' = JStr ''Diabetes''
   \<and> status (fst (link_handler env0 (req_link payload_no_consent))) = 400
   \<and> snd (link_handler env0 (req_link payload_no_consent)) = [Mkdir PAIRS_DIR]
   \<and> status (fst (link_handler_netlify env0 (ev_link payload_no_consent))) = 400
   \<and> snd (link_handler_netlify env0 (ev_link payload_no_consent)) = []"
  by code_simp

theorem link_without_consent_stored_by_legacy_witness:
  "status (fst (link_handler_legacy env0 (req_link payload_no_consent))) = 200
   \<and> length (snd (link_handler_legacy env0 (req_link payload_no_consent))) = 2
   \<and> status (fst (link_handler env0 (req_link payload_no_consent))) = 400"
  using link_without_consent_stored_by_legacy by simp

text \<open>
  Claim C8. A link request whose body is an object with \<open>term\<close> \<open>"Diabetes"\<close>, \<open>category\<close>
  \<open>"medical"\<close>, \<open>enAudioId\<close> \<open>"x"\<close>, \<open>htAudioId\<close> \<open>"y"\<close>, \<open>consent\<close> \<open>true\<close> and no \<open>enText\<close>,
  \<open>htText\<close> or \<open>annotator\<close>, with a body within the size bound and no filesystem call
  failing, is answered 200 by the partitioned server, by \<open>server.js\<close> and by the Netlify
  function; in each the record has \<open>en.text\<close> \<open>"Diabetes"\<close>, \<open>ht.text\<close> the empty string and
  \<open>annotator\<close> \<open>"anonymous"\<close>, and the servers write that record as \<open><sampleId>.pair.json\<close>.
\<close>

theorem link_defaults:
  assumes "map_of ps ''term'' = Some (JStr ''Diabetes'')"
    and "map_of ps ''category'' = Some (JStr ''medical'')"
    and "map_of ps ''enAudioId'' = Some (JStr ''x'')"
    and "map_of ps ''htAudioId'' = Some (JStr ''y'')"
    and "map_of ps ''consent'' = Some (JBool True)"
    and "map_of ps ''enText'' = None"
    and "map_of ps ''htText'' = None"
    and "map_of ps ''annotator'' = None"
    and "bodyJson req = Some (JObj ps)"
    and "int (sum_list (map length (chunks req))) \<le> MAX_FILE_SIZE (maxFileSizeEnv e)"
    and "\<forall>c. \<not> fails e c"
    and "httpMethod ev = ''POST''"
    and "payloadJson ev = Some (JObj ps)"
  shows "status (fst (link_handler e req)) = 200
    \<and> getProp (getProp (getProp (jsonBody (fst (link_handler e req))) ''record'') ''en'') ''text''
        = JStr ''Diabetes''
    \<and> getProp (getProp (getProp (jsonBody (fst (link_handler e req))) ''record'') ''ht'') ''text''
        = JStr []
    \<and> getProp (getProp (jsonBody (fst (link_handler e req))) ''record'') ''annotator''
        = JStr ''anonymous''
    \<and> snd (link_handler e req)
        = [Mkdir PAIRS_DIR,
           WriteFile PAIRS_DIR (uuid e @ ''.pair.json'')
             (JsonText (getProp (jsonBody (fst (link_handler e req))) ''record''))]
    \<and> status (fst (link_handler_legacy e req)) = 200
    \<and> getProp (getProp (getProp (jsonBody (fst (link_handler_legacy e req))) ''record'') ''en'') ''text''
        = JStr ''Diabetes''
    \<and> getProp (getProp (getProp (jsonBody (fst (link_handler_legacy e req))) ''record'') ''ht'') ''text''
        = JStr []
    \<and> getProp (getProp (jsonBody (fst (link_handler_legacy e req))) ''record'') ''annotator''
        = JStr ''anonymous''
    \<and> snd (link_handler_legacy e req)
        = [Mkdir DATA_DIR,
           WriteFile DATA_DIR (uuid e @ ''.pair.json'')
             (JsonText (getProp (jsonBody (fst (link_handler_legacy e req))) ''record''))]
    \<and> status (fst (link_handler_netlify e' ev)) = 200
    \<and> getProp (getProp (getProp (jsonBody (fst (link_handler_netlify e' ev))) ''record'') ''en'') ''text''
        = JStr ''Diabetes''
    \<and> getProp (getProp (getProp (jsonBody (fst (link_handler_netlify e' ev))) ''record'') ''ht'') ''text''
        = JStr []
    \<and> getProp (getProp (jsonBody (fst (link_handler_netlify e' ev))) ''record'') ''annotator''
        = JStr ''anonymous''"
proof -
  have rb: "readBody (chunks req) (MAX_FILE_SIZE (maxFileSizeEnv e)) = Inr (concat (chunks req))"
    using assms(10) by (rule readBody_within)
  have n: "status (fst (link_handler e req)) = 200
    \<and> getProp (getProp (getProp (jsonBody (fst (link_handler e req))) ''record'') ''en'') ''text''
        = JStr ''Diabetes''
    \<and> getProp (getProp (getProp (jsonBody (fst (link_handler e req))) ''record'') ''ht'') ''text''
        = JStr []
    \<and> getProp (getProp (jsonBody (fst (link_handler e req))) ''record'') ''annotator''
        = JStr ''anonymous''
    \<and> snd (link_handler e req)
        = [Mkdir PAIRS_DIR,
           WriteFile PAIRS_DIR (uuid e @ ''.pair.json'')
             (JsonText (getProp (jsonBody (fst (link_handler e req))) ''record''))]"
    using assms(1-9,11) rb
    by (simp add: link_handler_def Let_def js_or_def dflt_def)
  have l: "status (fst (link_handler_legacy e req)) = 200
    \<and> getProp (getProp (getProp (jsonBody (fst (link_handler_legacy e req))) ''record'') ''en'') ''text''
        = JStr ''Diabetes''
    \<and> getProp (getProp (getProp (jsonBody (fst (link_handler_legacy e req))) ''record'') ''ht'') ''text''
        = JStr []
    \<and> getProp (getProp (jsonBody (fst (link_handler_legacy e req))) ''record'') ''annotator''
        = JStr ''anonymous''
    \<and> snd (link_handler_legacy e req)
        = [Mkdir DATA_DIR,
           WriteFile DATA_DIR (uuid e @ ''.pair.json'')
             (JsonText (getProp (jsonBody (fst (link_handler_legacy e req))) ''record''))]"
    using assms(1-9,11)
    by (simp add: link_handler_legacy_def Let_def js_or_def dflt_def ensureDir_quiet_def)
  have m: "missingFields (JObj ps) = []"
    using assms(1-4) by (simp add: missingFields_def requiredNames_def)
  have f: "status (fst (link_handler_netlify e' ev)) = 200
    \<and> getProp (getProp (getProp (jsonBody (fst (link_handler_netlify e' ev))) ''record'') ''en'') ''text''
        = JStr ''Diabetes''
    \<and> getProp (getProp (getProp (jsonBody (fst (link_handler_netlify e' ev))) ''record'') ''ht'') ''text''
        = JStr []
    \<and> getProp (getProp (jsonBody (fst (link_handler_netlify e' ev))) ''record'') ''annotator''
        = JStr ''anonymous''"
    using assms(1-8,12,13) m
    by (simp add: link_handler_netlify_def Let_def js_or_def)
  show ?thesis using n l f by blast
qed

theorem link_defaults_witness:
  "bodyJson (req_link payload_diabetes) = Some payload_diabetes
   \<and> int (sum_list (map length (chunks (req_link payload_diabetes)))) \<le> MAX_FILE_SIZE (maxFileSizeEnv env0)
   \<and> (\<forall>c. \<not> fails env0 c)
   \<and> status (fst (link_handler env0 (req_link payload_diabetes))) = 200
   \<and> getProp (getProp (getProp (jsonBody (fst (link_handler env0 (req_link payload_diabetes))))
                 ''record'') ''en'') ''text'' = JStr ''Diabetes''
   \<and> getProp (getProp (getProp (jsonBody (fst (link_handler env0 (req_link payload_diabetes))))
                 ''record'') ''ht'') ''text'' = JStr []
   \<and> getProp (getProp (jsonBody (fst (link_handler env0 (req_link payload_diabetes))))
                 ''record'') ''annotator'' = JStr ''anonymous''
   \<and> status (fst (link_handler_legacy env0 (req_link payload_diabetes))) = 200
   \<and> status (fst (link_handler_netlify env0 (ev_link payload_diabetes))) = 200"
proof -
  let ?ps = "[(''term'', JStr ''Diabetes''), (''category'', JStr ''medical''),
           (''enAudioId'', JStr ''x''), (''htAudioId'', JStr ''y''), (''consent'', JBool True)]"
  have p: "payload_diabetes = JObj ?ps" by (simp add: payload_diabetes_def)
  have h1: "bodyJson (req_link payload_diabetes) = Some (JObj ?ps)"
    by (simp add: req_link_def p)
  have h2: "int (sum_list (map length (chunks (req_link payload_diabetes))))
            \<le> MAX_FILE_SIZE (maxFileSizeEnv env0)"
    by (simp add: req_link_def env0_def MAX_FILE_SIZE_def)
  have h3: "\<forall>c. \<not> fails env0 c" by (simp add: env0_def)
  have h4: "httpMethod (ev_link payload_diabetes) = ''POST''"
    "payloadJson (ev_link payload_diabetes) = Some (JObj ?ps)"
    by (simp_all add: ev_link_def p)
  from link_defaults [of ?ps "req_link payload_diabetes" env0 "ev_link payload_diabetes" env0,
                      OF _ _ _ _ _ _ _ _ h1 h2 h3 h4]
  have "status (fst (link_handler env0 (req_link payload_diabetes))) = 200
   \<and> getProp (getProp (getProp (jsonBody (fst (link_handler env0 (req_link payload_diabetes))))
                 ''record'') ''en'') ''text'' = JStr ''Diabetes''
   \<and> getProp (getProp (getProp (jsonBody (fst (link_handler env0 (req_link payload_diabetes))))
                 ''record'') ''ht'') ''text'' = JStr []
   \<and> getProp (getProp (jsonBody (fst (link_handler env0 (req_link payload_diabetes))))
                 ''record'') ''annotator'' = JStr ''anonymous''
   \<and> status (fst (link_handler_legacy env0 (req_link payload_diabetes))) = 200
   \<and> status (fst (link_handler_netlify env0 (ev_link payload_diabetes))) = 200"
    by simp
  then show ?thesis using h1 h2 h3 p by simp
qed

end
